theory Spec2Isabelle
  imports Complex_Main "HOL-Library.AList"
begin

section \<open>Python values, errors and containers\<close>

text \<open>
  The lifecycle module \<^verbatim>\<open>references/lightning.py\<close> is glue between a detection model, a
  data loader, an optimizer factory and a COCO evaluator. Its methods are embedded as
  functions that take the module object (\<open>self\<close>) and return either the exception raised
  or the returned value together with the updated module object. No exception is caught
  anywhere in the module, so a raise ends the run and the state behind it is not observed.
\<close>

datatype error =
    AttributeError
  | KeyError
  | TypeError
  | ValueError
  | IndexError
  | Raised string

text \<open>\<open>Raised name\<close> is an exception of a collaborator outside the module, by class name.\<close>

definition on_ok :: "error + 'a \<Rightarrow> ('a \<Rightarrow> error + 'b) \<Rightarrow> error + 'b" where
  "on_ok m f = (case m of Inl e \<Rightarrow> Inl e | Inr v \<Rightarrow> f v)"

fun collect :: "(error + 'a) list \<Rightarrow> error + 'a list" where
  \<comment> \<open>a list comprehension whose elements may raise: the first raise ends it\<close>
  "collect [] = Inr []"
| "collect (x # xs) = on_ok x (\<lambda>v. on_ok (collect xs) (\<lambda>vs. Inr (v # vs)))"

text \<open>Values of the configuration file, as keyword arguments carry them.\<close>

datatype pyval =
    PyNone
  | PyBool bool
  | PyInt int
  | PyFloat real
  | PyStr string
  | PyList "pyval list"
  | PyDict "(string \<times> pyval) list"

type_synonym kwargs = "(string \<times> pyval) list"

text \<open>
  A dict is an association list in insertion order. Storing under a key that is present
  replaces the value in place, storing under a new key appends: \<open>AList.update\<close>.
  A dict comprehension stores its pairs from left to right into an empty dict.
\<close>

definition dict_comp :: "('k \<times> 'v) list \<Rightarrow> ('k \<times> 'v) list" where
  "dict_comp kvs = foldl (\<lambda>d (k, v). AList.update k v d) [] kvs"

definition items :: "('k \<times> 'v) list \<Rightarrow> ('k \<times> 'v) list" where
  "items d = d"

definition values_of :: "('k \<times> 'v) list \<Rightarrow> 'v list" where
  "values_of d = map snd d"

definition getitem :: "('k \<times> 'v) list \<Rightarrow> 'k \<Rightarrow> error + 'v" where
  "getitem d k = (case map_of d k of None \<Rightarrow> Inl KeyError | Some v \<Rightarrow> Inr v)"

definition attr :: "'a option \<Rightarrow> error + 'a" where
  \<comment> \<open>reading an attribute of \<open>self\<close> that no method has assigned yet\<close>
  "attr a = (case a of None \<Rightarrow> Inl AttributeError | Some v \<Rightarrow> Inr v)"

text \<open>
  Python's \<open>sum\<close> starts from 0 and adds from left to right. Loss scalars are exact reals
  here; the rounding of tensor arithmetic is outside the model.
\<close>

definition py_sum :: "real list \<Rightarrow> real" where
  "py_sum xs = foldl (+) 0 xs"

section \<open>Data model\<close>

text \<open>
  A target record is a dict of tensors (\<open>boxes\<close>, \<open>labels\<close>, \<open>image_id\<close>, ...).
  \<open>.item()\<close> succeeds on a tensor of exactly one element and raises ValueError otherwise;
  a box tensor has a multiple of four elements, so it never has exactly one.
\<close>

type_synonym box = "real \<times> real \<times> real \<times> real"

datatype tensor = Ints "int list" | Boxes "box list"

definition item :: "tensor \<Rightarrow> error + int" where
  "item t = (case t of Ints [i] \<Rightarrow> Inr i | _ \<Rightarrow> Inl ValueError)"

type_synonym target = "(string \<times> tensor) list"

record detection =
  boxes :: "box list"
  labels :: "int list"
  scores :: "real list"

type_synonym loss_dict = "(string \<times> real) list"

text \<open>A batch as the step methods unpack it: \<open>images, targets, _ = batch\<close>.\<close>

type_synonym 'img batch = "'img list \<times> target list \<times> int list"

record parameter =
  p_name :: string
  requires_grad :: bool

text \<open>
  The wrapped RetinaNet: its parameters, its call with targets (the loss dict) and its
  \<open>predict\<close> (one detection per image). The network itself is outside the module.
\<close>

record 'img retinanet =
  parameters :: "parameter list"
  forward :: "'img list \<Rightarrow> target list \<Rightarrow> loss_dict"
  predict :: "'img list \<Rightarrow> detection list"

record optimizer_conf =
  opt_class_name :: string
  opt_params :: kwargs

record scheduler_conf =
  sch_class_name :: string
  sch_params :: kwargs
  sch_interval :: string
  sch_frequency :: int

record hparams =
  hp_optimizer :: optimizer_conf
  hp_scheduler :: scheduler_conf
  train_csv :: string
  valid_csv :: string
  test_csv :: string
  train_batch_size :: int
  valid_batch_size :: int
  test_batch_size :: int
  dataloader :: kwargs
  iou_types :: string

record dataframe =
  columns :: "string list"
  rows :: "string list list"

text \<open>An augmentation pipeline, each transform by its class name.\<close>

datatype compose = Compose (transforms: "string list")

record dataset =
  ds_df :: dataframe
  ds_tfms :: compose

definition DetectionDataset :: "dataframe \<Rightarrow> compose \<Rightarrow> dataset" where
  "DetectionDataset df tf = \<lparr>ds_df = df, ds_tfms = tf\<rparr>"

text \<open>The COCO ground-truth index of a dataset, represented by the dataset it indexes.\<close>

datatype coco = CocoOf dataset

definition get_coco_api_from_dataset :: "dataset \<Rightarrow> coco" where
  "get_coco_api_from_dataset ds = CocoOf ds"

text \<open>
  An optimizer or scheduler object is represented by what it was constructed from: the
  class \<open>load_obj\<close> resolved and the arguments of the constructor call.
\<close>

record optimizer_obj =
  opt_class :: string
  param_groups :: "parameter list"
  opt_kwargs :: kwargs

record scheduler_obj =
  sch_class :: string
  sch_optimizer :: optimizer_obj
  sch_kwargs :: kwargs

record scheduler_dict =
  sd_scheduler :: scheduler_obj
  sd_interval :: string
  sd_frequency :: int

text \<open>
  The arguments of each \<open>fancy_logger.info\<close> call; the rendering to text is left out.
\<close>

datatype log_msg =
    LogOptimizer string
  | LogScheduler string
  | LogAugmentations "string list"
  | LogSerialized string string
  | LogSize nat
  | LogEvaluationResults
  | LogTrainingOn nat
  | LogTrainingFrom nat
  | LogInferenceOn nat

text \<open>
  The collaborators the module imports and calls. \<open>'ev\<close> is the state of a
  \<open>CocoEvaluator\<close>; its constructor and methods are parameters. \<open>ds_len\<close> and
  \<open>ds_getitem\<close> are \<open>__len__\<close> and \<open>__getitem__\<close> of \<open>DetectionDataset\<close>; an item is taken
  to be a function of the dataset and the index, and the index is whatever value the
  sampler yields.
\<close>

record ('img, 'ev) env =
  get_tfms :: "hparams \<Rightarrow> (string \<times> compose) list"
  load_obj :: "string \<Rightarrow> error + string"
  read_csv :: "string \<Rightarrow> error + dataframe"
  getsize :: "string \<Rightarrow> error + nat"
  ds_len :: "dataset \<Rightarrow> nat"
  ds_getitem :: "dataset \<Rightarrow> pyval \<Rightarrow> error + 'img \<times> target \<times> int"
  CocoEvaluator :: "coco \<Rightarrow> string list \<Rightarrow> 'ev"
  ev_update :: "'ev \<Rightarrow> (int \<times> detection) list \<Rightarrow> error + 'ev"
  ev_accumulate :: "'ev \<Rightarrow> error + 'ev"
  ev_summarize :: "'ev \<Rightarrow> error + 'ev"
  ev_coco_eval :: "'ev \<Rightarrow> (string \<times> real list) list"

text \<open>The module object: \<open>self\<close> of \<open>DetectionModel\<close>. Attributes set after construction are optional.\<close>

record ('img, 'ev) detection_model =
  model :: "'img retinanet"
  hparams :: hparams
  fancy_logger :: "log_msg list"
  optimizer :: "optimizer_obj option"
  scheduler :: "scheduler_dict option"
  tfms :: "(string \<times> compose) list option"
  trn_df :: "dataframe option"
  val_df :: "dataframe option"
  test_df :: "dataframe option"
  test_evaluator :: "'ev option"

definition info :: "log_msg \<Rightarrow> ('img, 'ev) detection_model \<Rightarrow> ('img, 'ev) detection_model" where
  "info m s = s\<lparr>fancy_logger := fancy_logger s @ [m]\<rparr>"

section \<open>Training step\<close>

text \<open>
  \<^verbatim>\<open>
  def training_step(self, batch, batch_idx, *args, **kwargs):
      images, targets, _ = batch
      targets = [{k: v for k, v in t.items()} for t in targets]
      loss_dict = self.model(images, targets)
      losses = sum(loss for loss in loss_dict.values())
      return {"loss": losses, "log": loss_dict, "progress_bar": loss_dict}
  \<close>
  The step assigns no attribute of \<open>self\<close>; the model call is a function of the model and
  its arguments. The backward pass and the optimizer step are the trainer's.
\<close>

record train_output =
  out_loss :: real
  out_log :: loss_dict
  out_progress_bar :: loss_dict

definition training_step ::
  "('img, 'ev) detection_model \<Rightarrow> 'img batch \<Rightarrow> nat \<Rightarrow> train_output \<times> ('img, 'ev) detection_model" where
  "training_step s batch batch_idx =
     (case batch of (images, targets, _) \<Rightarrow>
        let targets = map (\<lambda>t. dict_comp (items t)) targets;
            loss_dict = forward (model s) images targets;
            losses = py_sum (values_of loss_dict)
        in (\<lparr>out_loss = losses, out_log = loss_dict, out_progress_bar = loss_dict\<rparr>, s))"

section \<open>Optimizer and scheduler\<close>

text \<open>
  \<open>load_obj(class_name)(params, **kwargs)\<close>: the class is resolved by \<open>load_obj\<close>, which
  raises when the dotted path names nothing; the constructor call is represented by its
  arguments.
\<close>

text \<open>
  \<^verbatim>\<open>
  def configure_optimizers(self, *args, **kwargs):
      params = [p for p in self.model.parameters() if p.requires_grad]
      self.optimizer = load_obj(self.hparams.optimizer.class_name)(params, **self.hparams.optimizer.params)
      self.scheduler = load_obj(self.hparams.scheduler.class_name)(self.optimizer, **self.hparams.scheduler.params)
      self.scheduler = {"scheduler": self.scheduler,
                        "interval": self.hparams.scheduler.interval,
                        "frequency": self.hparams.scheduler.frequency}
      self.fancy_logger.info(f"Optimizer : {self.optimizer.__class__.__name__}")
      self.fancy_logger.info(f"Scheduler : {self.scheduler['scheduler'].__class__.__name__}")
      return [self.optimizer], [self.scheduler]
  \<close>
\<close>

definition configure_optimizers ::
  "('img, 'ev) env \<Rightarrow> ('img, 'ev) detection_model \<Rightarrow>
     error + ((optimizer_obj list \<times> scheduler_dict list) \<times> ('img, 'ev) detection_model)" where
  "configure_optimizers env s =
     (let params = filter requires_grad (parameters (model s)) in
      on_ok (load_obj env (opt_class_name (hp_optimizer (hparams s)))) (\<lambda>cls.
        let opt = \<lparr>opt_class = cls, param_groups = params,
                   opt_kwargs = opt_params (hp_optimizer (hparams s))\<rparr>;
            s = s\<lparr>optimizer := Some opt\<rparr>
        in on_ok (load_obj env (sch_class_name (hp_scheduler (hparams s)))) (\<lambda>scls.
          let sch = \<lparr>sch_class = scls, sch_optimizer = opt,
                     sch_kwargs = sch_params (hp_scheduler (hparams s))\<rparr>;
              sd = \<lparr>sd_scheduler = sch,
                    sd_interval = sch_interval (hp_scheduler (hparams s)),
                    sd_frequency = sch_frequency (hp_scheduler (hparams s))\<rparr>;
              s = s\<lparr>scheduler := Some sd\<rparr>;
              s = info (LogOptimizer (opt_class opt)) s;
              s = info (LogScheduler (sch_class (sd_scheduler sd))) s
          in Inr (([opt], [sd]), s))))"

section \<open>Getting the data ready\<close>

text \<open>
  \<^verbatim>\<open>
  def prepare_data(self, stage=None):
      self.tfms = get_tfms(self.hparams)
      _augs = self.tfms["train"].transforms
      prompt = [_augs[i].__class__.__name__ for i in range(len(list(_augs)))]
      self.fancy_logger.info(f"Augmentations used in training: {prompt}")
      self.trn_df = pd.read_csv(self.hparams.train_csv)
      self.fancy_logger.info(f"Serialized train dataset from {self.hparams.train_csv}")
      self.fancy_logger.info(f"Serialized dataset takes {os.path.getsize(self.hparams.train_csv)/(1024*1024):.2f} MiB")
      ... the same for self.val_df / valid_csv and self.test_df / test_csv
  \<close>
  Nothing is checked about the frames that were read.
\<close>

definition prepare_data ::
  "('img, 'ev) env \<Rightarrow> ('img, 'ev) detection_model \<Rightarrow> error + ('img, 'ev) detection_model" where
  "prepare_data env s =
     (let s = s\<lparr>tfms := Some (get_tfms env (hparams s))\<rparr> in
      on_ok (attr (tfms s)) (\<lambda>tf.
      on_ok (getitem tf ''train'') (\<lambda>c.
        let augs = transforms c;
            prompt = map (\<lambda>i. augs ! i) [0..<length augs];
            s = info (LogAugmentations prompt) s
        in on_ok (read_csv env (train_csv (hparams s))) (\<lambda>df.
        let s = s\<lparr>trn_df := Some df\<rparr>;
            s = info (LogSerialized ''train'' (train_csv (hparams s))) s
        in on_ok (getsize env (train_csv (hparams s))) (\<lambda>n.
        let s = info (LogSize n) s
        in on_ok (read_csv env (valid_csv (hparams s))) (\<lambda>df.
        let s = s\<lparr>val_df := Some df\<rparr>;
            s = info (LogSerialized ''validation'' (valid_csv (hparams s))) s
        in on_ok (getsize env (valid_csv (hparams s))) (\<lambda>n.
        let s = info (LogSize n) s
        in on_ok (read_csv env (test_csv (hparams s))) (\<lambda>df.
        let s = s\<lparr>test_df := Some df\<rparr>;
            s = info (LogSerialized ''test'' (test_csv (hparams s))) s
        in on_ok (getsize env (test_csv (hparams s))) (\<lambda>n.
        let s = info (LogSize n) s
        in Inr s)))))))))"

section \<open>Data loaders\<close>

text \<open>
  The constructor of torch's \<open>DataLoader\<close>, as far as it decides the order of the
  batches. Python binds the positional arguments \<open>dataset\<close>, \<open>batch_size\<close> and (when
  given) \<open>shuffle\<close>, the keyword \<open>collate_fn\<close>, and then the entries of
  \<open>**self.hparams.dataloader\<close>: an entry for an argument that is already bound is a
  TypeError. The constructor then
  \<^item> refuses a sampler together with a true \<open>shuffle\<close>;
  \<^item> given a batch sampler, refuses a batch size other than 1, a true \<open>shuffle\<close>, a
    sampler and a true \<open>drop_last\<close>;
  \<^item> given none, builds its own batch sampler, which refuses a batch size that is not
    positive and a \<open>drop_last\<close> that is no boolean.
  Checks that do not bear on the order (unknown option names, \<open>num_workers\<close>, \<open>timeout\<close>)
  are left out, so the model constructs a loader wherever torch does.
\<close>

record data_loader =
  dl_dataset :: dataset
  dl_batch_size :: int
  dl_shuffle :: bool
  dl_sampler :: pyval
  dl_batch_sampler :: pyval
  dl_drop_last :: bool
  dl_options :: kwargs

definition truthy :: "pyval \<Rightarrow> bool" where
  "truthy v = (case v of PyNone \<Rightarrow> False | PyBool b \<Rightarrow> b | PyInt i \<Rightarrow> i \<noteq> 0
                 | PyFloat r \<Rightarrow> r \<noteq> 0 | PyStr x \<Rightarrow> x \<noteq> []
                 | PyList vs \<Rightarrow> vs \<noteq> [] | PyDict kvs \<Rightarrow> kvs \<noteq> [])"

definition kwarg :: "kwargs \<Rightarrow> string \<Rightarrow> pyval \<Rightarrow> pyval" where
  "kwarg kw k dflt = (case map_of kw k of None \<Rightarrow> dflt | Some v \<Rightarrow> v)"

definition DataLoader :: "dataset \<Rightarrow> int \<Rightarrow> bool option \<Rightarrow> kwargs \<Rightarrow> error + data_loader" where
  "DataLoader ds bs shuffle_arg kw =
     (let bound = [''dataset'', ''batch_size'']
                  @ (case shuffle_arg of None \<Rightarrow> [] | Some _ \<Rightarrow> [''shuffle''])
                  @ [''collate_fn''];
          shuffle = (case shuffle_arg of
                       Some b \<Rightarrow> b
                     | None \<Rightarrow> truthy (kwarg kw ''shuffle'' (PyBool False)));
          sampler = kwarg kw ''sampler'' PyNone;
          batch_sampler = kwarg kw ''batch_sampler'' PyNone;
          drop_last = kwarg kw ''drop_last'' (PyBool False);
          loader = \<lparr>dl_dataset = ds, dl_batch_size = bs, dl_shuffle = shuffle,
                    dl_sampler = sampler, dl_batch_sampler = batch_sampler,
                    dl_drop_last = False, dl_options = kw\<rparr>
      in
      if list_ex (\<lambda>k. k \<in> set bound) (map fst kw) then Inl TypeError
      else if sampler \<noteq> PyNone \<and> shuffle then Inl ValueError
      else if batch_sampler = PyNone then
        (if bs \<le> 0 then Inl ValueError
         else (case drop_last of
                 PyBool dr \<Rightarrow> Inr (loader\<lparr>dl_drop_last := dr\<rparr>)
               | _ \<Rightarrow> Inl ValueError))
      else if bs = 1 \<and> \<not> shuffle \<and> sampler = PyNone \<and> \<not> truthy drop_last then Inr loader
      else Inl ValueError)"

text \<open>
  Iterating a loader. Without a sampler option the sampler yields the indices \<open>0..<n\<close>
  in order, or a permutation drawn from the random source when \<open>shuffle\<close> is set; a
  sampler option is iterated as it is (a list yields its elements, a string its
  characters, a mapping its keys, anything else is not iterable). The loader's own batch
  sampler cuts the indices into runs of \<open>batch_size\<close> and drops a short last run when
  \<open>drop_last\<close> is set; a batch sampler option yields the runs itself. Each run is fetched
  from the dataset item by item and collated.
\<close>

definition py_iter :: "pyval \<Rightarrow> error + pyval list" where
  "py_iter v = (case v of
                  PyList vs \<Rightarrow> Inr vs
                | PyStr cs \<Rightarrow> Inr (map (\<lambda>c. PyStr [c]) cs)
                | PyDict kvs \<Rightarrow> Inr (map (\<lambda>(k, x). PyStr k) kvs)
                | _ \<Rightarrow> Inl TypeError)"

function chunks :: "nat \<Rightarrow> 'a list \<Rightarrow> 'a list list" where
  "chunks k xs = (if k = 0 \<or> xs = [] then [] else take k xs # chunks k (drop k xs))"
  by pat_completeness auto
termination
  by (relation "measure (\<lambda>(k, xs). length xs)") auto

declare chunks.simps [simp del]

definition sample_order :: "data_loader \<Rightarrow> nat \<Rightarrow> (nat \<Rightarrow> nat list) \<Rightarrow> error + pyval list" where
  "sample_order dl n randperm =
     (case dl_sampler dl of
        PyNone \<Rightarrow> Inr (map (\<lambda>i. PyInt (int i)) (if dl_shuffle dl then randperm n else [0..<n]))
      | smp \<Rightarrow> py_iter smp)"

definition batch_indices ::
  "data_loader \<Rightarrow> nat \<Rightarrow> (nat \<Rightarrow> nat list) \<Rightarrow> error + pyval list list" where
  "batch_indices dl n randperm =
     (case dl_batch_sampler dl of
        PyNone \<Rightarrow>
          on_ok (sample_order dl n randperm) (\<lambda>idxs.
            let runs = chunks (nat (dl_batch_size dl)) idxs
            in Inr (if dl_drop_last dl
                    then filter (\<lambda>r. length r = nat (dl_batch_size dl)) runs else runs))
      | bsmp \<Rightarrow> on_ok (py_iter bsmp) (\<lambda>runs. collect (map py_iter runs)))"

text \<open>
  Modelled from the spec: \<open>collate_fn\<close> of the \<open>pytorch_retinanet\<close> package, the
  BatchCollator of section 4.2. Given the individually sampled items it returns one batch:
  the images, the targets as an ordered sequence aligned by index to the images, and the
  identifier list.
\<close>

definition collate_fn :: "('img \<times> target \<times> int) list \<Rightarrow> 'img batch" where
  "collate_fn samples =
     (map (\<lambda>(img, t, i). img) samples, map (\<lambda>(img, t, i). t) samples, map (\<lambda>(img, t, i). i) samples)"

definition batches ::
  "('img, 'ev) env \<Rightarrow> data_loader \<Rightarrow> (nat \<Rightarrow> nat list) \<Rightarrow> error + 'img batch list" where
  "batches env dl randperm =
     on_ok (batch_indices dl (ds_len env (dl_dataset dl)) randperm) (\<lambda>runs.
       collect (map (\<lambda>idxs. on_ok (collect (map (ds_getitem env (dl_dataset dl)) idxs))
                                  (\<lambda>samples. Inr (collate_fn samples))) runs))"

text \<open>
  \<^verbatim>\<open>
  def train_dataloader(self, *args, **kwargs):
      train_ds = DetectionDataset(self.trn_df, self.tfms["train"])
      bs = self.hparams.train_batch_size
      trn_dl = DataLoader(train_ds, bs, True, collate_fn=collate_fn, **self.hparams.dataloader)
      return trn_dl

  def val_dataloader(self, *args, **kwargs):
      val_ds = DetectionDataset(self.val_df, self.tfms["valid"])
      bs = self.hparams.valid_batch_size
      loader = DataLoader(val_ds, bs, collate_fn=collate_fn, **self.hparams.dataloader)
      return loader

  def test_dataloader(self, *args, **kwargs):
      test_ds = DetectionDataset(self.test_df, self.tfms["test"])
      bs = self.hparams.test_batch_size
      loader = DataLoader(test_ds, bs, collate_fn=collate_fn, **self.hparams.dataloader)
      coco = get_coco_api_from_dataset(loader.dataset)
      self.test_evaluator = CocoEvaluator(coco, [self.hparams.iou_types])
      return loader
  \<close>
  The third positional argument of \<open>DataLoader\<close> is \<open>shuffle\<close>.
\<close>

definition train_dataloader ::
  "('img, 'ev) env \<Rightarrow> ('img, 'ev) detection_model \<Rightarrow> error + (data_loader \<times> ('img, 'ev) detection_model)" where
  "train_dataloader env s =
     on_ok (attr (trn_df s)) (\<lambda>df.
     on_ok (attr (tfms s)) (\<lambda>tf.
     on_ok (getitem tf ''train'') (\<lambda>c.
       let train_ds = DetectionDataset df c;
           bs = train_batch_size (hparams s)
       in on_ok (DataLoader train_ds bs (Some True) (dataloader (hparams s))) (\<lambda>trn_dl.
       Inr (trn_dl, s)))))"

definition val_dataloader ::
  "('img, 'ev) env \<Rightarrow> ('img, 'ev) detection_model \<Rightarrow> error + (data_loader \<times> ('img, 'ev) detection_model)" where
  "val_dataloader env s =
     on_ok (attr (val_df s)) (\<lambda>df.
     on_ok (attr (tfms s)) (\<lambda>tf.
     on_ok (getitem tf ''valid'') (\<lambda>c.
       let val_ds = DetectionDataset df c;
           bs = valid_batch_size (hparams s)
       in on_ok (DataLoader val_ds bs None (dataloader (hparams s))) (\<lambda>loader.
       Inr (loader, s)))))"

definition test_dataloader ::
  "('img, 'ev) env \<Rightarrow> ('img, 'ev) detection_model \<Rightarrow> error + (data_loader \<times> ('img, 'ev) detection_model)" where
  "test_dataloader env s =
     on_ok (attr (test_df s)) (\<lambda>df.
     on_ok (attr (tfms s)) (\<lambda>tf.
     on_ok (getitem tf ''test'') (\<lambda>c.
       let test_ds = DetectionDataset df c;
           bs = test_batch_size (hparams s)
       in on_ok (DataLoader test_ds bs None (dataloader (hparams s))) (\<lambda>loader.
       let coco = get_coco_api_from_dataset (dl_dataset loader);
           s = s\<lparr>test_evaluator := Some (CocoEvaluator env coco [iou_types (hparams s)])\<rparr>
       in Inr (loader, s)))))"

section \<open>Validation step\<close>

text \<open>One entry of an \<open>EvalResult\<close>, as its \<open>log\<close> method records it.\<close>

record logged =
  lg_name :: string
  lg_value :: real
  lg_on_step :: bool
  lg_on_epoch :: bool
  lg_prog_bar :: bool
  lg_logger :: bool

type_synonym eval_result = "logged list"

definition EvalResult :: eval_result where
  "EvalResult = []"

definition result_log :: "eval_result \<Rightarrow> string \<Rightarrow> real \<Rightarrow> bool \<Rightarrow> bool \<Rightarrow> bool \<Rightarrow> bool \<Rightarrow> eval_result" where
  "result_log r name v on_step on_epoch prog_bar logger =
     r @ [\<lparr>lg_name = name, lg_value = v, lg_on_step = on_step, lg_on_epoch = on_epoch,
           lg_prog_bar = prog_bar, lg_logger = logger\<rparr>]"

text \<open>
  \<^verbatim>\<open>
  def validation_step(self, batch, batch_idx, *args, **kwargs):
      images, targets, _ = batch
      targets = [{k: v for k, v in t.items()} for t in targets]
      loss_dict = self.model(images, targets)
      loss = sum(loss for loss in loss_dict.values())
      result = pl.EvalResult()
      result.log('val_loss', loss, on_step=False, on_epoch=True, prog_bar=True, logger=True)
      return result
  \<close>
\<close>

definition validation_step ::
  "('img, 'ev) detection_model \<Rightarrow> 'img batch \<Rightarrow> nat \<Rightarrow> eval_result \<times> ('img, 'ev) detection_model" where
  "validation_step s batch batch_idx =
     (case batch of (images, targets, _) \<Rightarrow>
        let targets = map (\<lambda>t. dict_comp (items t)) targets;
            loss_dict = forward (model s) images targets;
            loss = py_sum (values_of loss_dict);
            result = EvalResult;
            result = result_log result ''val_loss'' loss False True True True
        in (result, s))"

section \<open>Test step and end of the test epoch\<close>

text \<open>
  The pairs of the comprehension \<open>{t["image_id"].item(): o for t, o in zip(targets, outputs)}\<close>,
  evaluated from left to right; the first target without an \<open>image_id\<close> of one element raises.
\<close>

fun res_pairs :: "(target \<times> detection) list \<Rightarrow> error + (int \<times> detection) list" where
  "res_pairs [] = Inr []"
| "res_pairs ((t, out) # rest) =
     on_ok (getitem t ''image_id'') (\<lambda>idt.
     on_ok (item idt) (\<lambda>k.
     on_ok (res_pairs rest) (\<lambda>r. Inr ((k, out) # r))))"

text \<open>
  \<^verbatim>\<open>
  def test_step(self, batch, batch_idx, *args, **kwargs):
      images, targets, _ = batch
      targets = [{k: v for k, v in t.items()} for t in targets]
      outputs = self.model.predict(images)
      res = {t["image_id"].item(): o for t, o in zip(targets, outputs)}
      self.test_evaluator.update(res)
      return {}
  \<close>
  The evaluator is updated in place; the model stores the updated evaluator on the module.
\<close>

definition test_step ::
  "('img, 'ev) env \<Rightarrow> ('img, 'ev) detection_model \<Rightarrow> 'img batch \<Rightarrow> nat \<Rightarrow>
     error + ((string \<times> pyval) list \<times> ('img, 'ev) detection_model)" where
  "test_step env s batch batch_idx =
     (case batch of (images, targets, _) \<Rightarrow>
        let targets = map (\<lambda>t. dict_comp (items t)) targets;
            outputs = predict (model s) images
        in on_ok (res_pairs (zip targets outputs)) (\<lambda>kvs.
           let res = dict_comp kvs
           in on_ok (attr (test_evaluator s)) (\<lambda>ev.
              on_ok (ev_update env ev res) (\<lambda>ev.
              Inr ([], s\<lparr>test_evaluator := Some ev\<rparr>)))))"

text \<open>
  \<^verbatim>\<open>
  def test_epoch_end(self, outputs, *args, **kwargs):
      self.fancy_logger.info("Evaluation results: ")
      self.test_evaluator.accumulate()
      self.test_evaluator.summarize()
      metric = self.test_evaluator.coco_eval["bbox"].stats[0]
      metric = torch.as_tensor(metric)
      logs = {"AP": metric}
      return {"AP": metric, "log": logs, "progress_bar": logs,}
  \<close>
\<close>

record epoch_output =
  ep_AP :: real
  ep_log :: "(string \<times> real) list"
  ep_progress_bar :: "(string \<times> real) list"

definition test_epoch_end ::
  "('img, 'ev) env \<Rightarrow> ('img, 'ev) detection_model \<Rightarrow> (string \<times> pyval) list list \<Rightarrow>
     error + (epoch_output \<times> ('img, 'ev) detection_model)" where
  "test_epoch_end env s outputs =
     (let s = info LogEvaluationResults s in
      on_ok (attr (test_evaluator s)) (\<lambda>ev.
      on_ok (ev_accumulate env ev) (\<lambda>ev.
      on_ok (ev_summarize env ev) (\<lambda>ev.
        let s = s\<lparr>test_evaluator := Some ev\<rparr>
        in on_ok (getitem (ev_coco_eval env ev) ''bbox'') (\<lambda>stats.
           case stats of
             [] \<Rightarrow> Inl IndexError
           | metric # _ \<Rightarrow>
               let logs = [(''AP'', metric)]
               in Inr (\<lparr>ep_AP = metric, ep_log = logs, ep_progress_bar = logs\<rparr>, s))))))"

section \<open>Logging callback\<close>

text \<open>
  \<^verbatim>\<open>
  class LogCallback(pl.Callback):
      """Callback to handle logging within pl_module"""
      def on_train_start(self, trainer, pl_module):
          prompt = f"Training on {pl_module.train_dataloader().dataset.__len__()} images"
          pl_module.fancy_logger.info(prompt)
          prompt = f"Training from iteration {trainer.global_step} : "
          pl_module.fancy_logger.info(prompt)
      def on_test_start(self, trainer, pl_module):
          prompt = f"Inference on {pl_module.test_dataloader().dataset.__len__()} images"
          pl_module.fancy_logger.info(prompt)
  \<close>
  Of the trainer only \<open>global_step\<close> is read.
\<close>

datatype callback = LearningRateLogger kwargs | LogCallback

record trainer =
  global_step :: nat
  tr_logger :: "(string \<times> kwargs) list"
  checkpoint_callback :: kwargs
  early_stop_callback :: kwargs
  callbacks :: "callback list"
  tr_flags :: kwargs

definition on_train_start ::
  "('img, 'ev) env \<Rightarrow> trainer \<Rightarrow> ('img, 'ev) detection_model \<Rightarrow> error + ('img, 'ev) detection_model" where
  "on_train_start env tr pl_module =
     on_ok (train_dataloader env pl_module) (\<lambda>(dl, pl_module).
       let prompt = LogTrainingOn (ds_len env (dl_dataset dl));
           pl_module = info prompt pl_module;
           prompt = LogTrainingFrom (global_step tr);
           pl_module = info prompt pl_module
       in Inr pl_module)"

definition on_test_start ::
  "('img, 'ev) env \<Rightarrow> trainer \<Rightarrow> ('img, 'ev) detection_model \<Rightarrow> error + ('img, 'ev) detection_model" where
  "on_test_start env tr pl_module =
     on_ok (test_dataloader env pl_module) (\<lambda>(dl, pl_module).
       let prompt = LogInferenceOn (ds_len env (dl_dataset dl));
           pl_module = info prompt pl_module
       in Inr pl_module)"

section \<open>The trainer and its callbacks\<close>

text \<open>
  \<^verbatim>\<open>
  def initialize_trainer(trainer_conf, **kwargs) -> pl.Trainer:
      early_stopping = EarlyStopping(**trainer_conf.early_stopping.params)
      os.makedirs(trainer_conf.model_checkpoint.params.filepath, exist_ok=True)
      model_checkpoint = ModelCheckpoint(**trainer_conf.model_checkpoint.params)
      lr_logger = LearningRateLogger(**trainer_conf.learning_rate_monitor.params)
      logger = load_obj(trainer_conf.logger.class_name)(**trainer_conf.logger.params)
      log_cb = LogCallback()
      callbacks = [lr_logger, log_cb]
      logger = [logger]
      trainer = pl.Trainer(logger=logger, checkpoint_callback=model_checkpoint,
                           early_stop_callback=early_stopping, callbacks=callbacks,
                           **trainer_conf.flags, **kwargs)
      return trainer
  \<close>
  The callback and logger objects are represented by what they were constructed from, and
  their constructors and \<open>os.makedirs\<close> are taken to succeed. In the call of \<open>pl.Trainer\<close> a
  flag or keyword that names an argument given already is a TypeError, so the callbacks
  of a trainer that is constructed are the two of the list. A new trainer is at step 0.
\<close>

record trainer_conf =
  early_stopping_params :: kwargs
  model_checkpoint_params :: kwargs
  learning_rate_monitor_params :: kwargs
  logger_class_name :: string
  logger_params :: kwargs
  flags :: kwargs

definition Trainer ::
  "(string \<times> kwargs) list \<Rightarrow> kwargs \<Rightarrow> kwargs \<Rightarrow> callback list \<Rightarrow> kwargs \<Rightarrow> error + trainer" where
  "Trainer logger ckpt early cbs kw =
     (if list_ex (\<lambda>k. k \<in> set [''logger'', ''checkpoint_callback'', ''early_stop_callback'', ''callbacks''])
           (map fst kw)
      then Inl TypeError
      else if distinct (map fst kw)
      then Inr \<lparr>global_step = 0, tr_logger = logger, checkpoint_callback = ckpt,
                early_stop_callback = early, callbacks = cbs, tr_flags = kw\<rparr>
      else Inl TypeError)"

definition initialize_trainer ::
  "('img, 'ev) env \<Rightarrow> trainer_conf \<Rightarrow> kwargs \<Rightarrow> error + trainer" where
  "initialize_trainer env conf kw =
     (let early_stopping = early_stopping_params conf;
          model_checkpoint = model_checkpoint_params conf;
          lr_logger = LearningRateLogger (learning_rate_monitor_params conf)
      in on_ok (load_obj env (logger_class_name conf)) (\<lambda>cls.
         let logger = (cls, logger_params conf);
             log_cb = LogCallback;
             cbs = [lr_logger, log_cb];
             logger = [logger]
         in Trainer logger model_checkpoint early_stopping cbs (flags conf @ kw)))"

section \<open>Construction and test doubles\<close>

definition DetectionModel :: "'img retinanet \<Rightarrow> hparams \<Rightarrow> ('img, 'ev) detection_model" where
  \<comment> \<open>\<open>__init__\<close>: the model, the configuration and an empty log\<close>
  "DetectionModel m h =
     \<lparr>model = m, hparams = h, fancy_logger = [], optimizer = None, scheduler = None,
      tfms = None, trn_df = None, val_df = None, test_df = None, test_evaluator = None\<rparr>"

text \<open>
  A file system for \<open>pd.read_csv\<close> and \<open>os.path.getsize\<close>: a missing path raises
  FileNotFoundError, a file without a header line raises EmptyDataError, and a file that
  holds a header line only is read as a frame with no rows.
\<close>

record csv_file =
  file_size :: nat
  header :: "string list"
  records :: "string list list"

definition read_csv_from :: "(string \<times> csv_file) list \<Rightarrow> string \<Rightarrow> error + dataframe" where
  "read_csv_from fs path =
     (case map_of fs path of
        None \<Rightarrow> Inl (Raised ''FileNotFoundError'')
      | Some f \<Rightarrow>
          if header f = [] then Inl (Raised ''EmptyDataError'')
          else Inr \<lparr>columns = header f, rows = records f\<rparr>)"

definition getsize_from :: "(string \<times> csv_file) list \<Rightarrow> string \<Rightarrow> error + nat" where
  "getsize_from fs path =
     (case map_of fs path of
        None \<Rightarrow> Inl (Raised ''FileNotFoundError'')
      | Some f \<Rightarrow> Inr (file_size f))"

text \<open>
  Modelled from the spec: the EvaluationAccumulator of section 4.5, standing in for the
  \<open>CocoEvaluator\<close> of the \<open>pytorch_retinanet\<close> package. It owns the results keyed by image
  identifier and an accumulated flag; \<open>update\<close> with an identifier that was already
  submitted is a DuplicateImageError; a second \<open>accumulate\<close> is a no-op. The average
  precision it reports is a parameter.
\<close>

record accumulator =
  acc_gt :: coco
  acc_iou_types :: "string list"
  acc_results :: "(int \<times> detection) list"
  acc_accumulated :: bool
  acc_stats :: "real list"

definition acc_new :: "coco \<Rightarrow> string list \<Rightarrow> accumulator" where
  "acc_new gt ious =
     \<lparr>acc_gt = gt, acc_iou_types = ious, acc_results = [], acc_accumulated = False, acc_stats = []\<rparr>"

definition acc_update :: "accumulator \<Rightarrow> (int \<times> detection) list \<Rightarrow> error + accumulator" where
  "acc_update a res =
     (if list_ex (\<lambda>k. k \<in> set (map fst (acc_results a))) (map fst res)
      then Inl (Raised ''DuplicateImageError'')
      else Inr (a\<lparr>acc_results := acc_results a @ res\<rparr>))"

definition acc_accumulate :: "accumulator \<Rightarrow> error + accumulator" where
  "acc_accumulate a = Inr (a\<lparr>acc_accumulated := True\<rparr>)"

definition acc_summarize :: "real \<Rightarrow> accumulator \<Rightarrow> error + accumulator" where
  "acc_summarize ap a = Inr (a\<lparr>acc_stats := [ap]\<rparr>)"

definition acc_coco_eval :: "accumulator \<Rightarrow> (string \<times> real list) list" where
  "acc_coco_eval a = map (\<lambda>iou. (iou, acc_stats a)) (acc_iou_types a)"

text \<open>
  The scenario of the spec's section 8: a model stub with the fixed loss
  \<open>{cls: 0.3, reg: 0.2}\<close>, a training split of four images and batches of two. Images are
  numbered; the stub's detection for an image carries the image's number as its label.
\<close>

definition stub_model :: "nat retinanet" where
  "stub_model =
     \<lparr>parameters = [\<lparr>p_name = ''backbone.weight'', requires_grad = False\<rparr>,
                    \<lparr>p_name = ''head.weight'', requires_grad = True\<rparr>],
      forward = (\<lambda>images targets. [(''cls'', 3 / 10), (''reg'', 2 / 10)]),
      predict = map (\<lambda>img. \<lparr>boxes = [], labels = [int img], scores = [1]\<rparr>)\<rparr>"

definition demo_hparams :: hparams where
  "demo_hparams =
     \<lparr>hp_optimizer = \<lparr>opt_class_name = ''torch.optim.SGD'', opt_params = [(''lr'', PyFloat (1 / 100))]\<rparr>,
      hp_scheduler = \<lparr>sch_class_name = ''torch.optim.lr_scheduler.StepLR'',
                      sch_params = [(''step_size'', PyInt 1)],
                      sch_interval = ''epoch'', sch_frequency = 1\<rparr>,
      train_csv = ''train.csv'', valid_csv = ''valid.csv'', test_csv = ''test.csv'',
      train_batch_size = 2, valid_batch_size = 2, test_batch_size = 2,
      dataloader = [(''num_workers'', PyInt 0)],
      iou_types = ''bbox''\<rparr>"

definition demo_train_df :: dataframe where
  "demo_train_df =
     \<lparr>columns = [''filename'', ''labels''],
      rows = [[''a.jpg'', ''1''], [''b.jpg'', ''2''], [''c.jpg'', ''1''], [''d.jpg'', ''2'']]\<rparr>"

definition demo_valid_df :: dataframe where
  "demo_valid_df =
     \<lparr>columns = [''filename'', ''labels''], rows = [[''e.jpg'', ''1''], [''f.jpg'', ''2'']]\<rparr>"

definition demo_test_df :: dataframe where
  "demo_test_df =
     \<lparr>columns = [''filename'', ''labels''], rows = [[''g.jpg'', ''1''], [''h.jpg'', ''2'']]\<rparr>"

definition file_of :: "nat \<Rightarrow> dataframe \<Rightarrow> csv_file" where
  "file_of n df = \<lparr>file_size = n, header = columns df, records = rows df\<rparr>"

definition demo_files :: "(string \<times> csv_file) list" where
  "demo_files =
     [(''train.csv'', file_of 40 demo_train_df),
      (''valid.csv'', file_of 24 demo_valid_df),
      (''test.csv'', file_of 24 demo_test_df)]"

definition demo_tfms :: "(string \<times> compose) list" where
  "demo_tfms =
     [(''train'', Compose [''HorizontalFlip'', ''ToTensor'']),
      (''valid'', Compose [''ToTensor'']),
      (''test'', Compose [''ToTensor''])]"

definition demo_env :: "(string \<times> csv_file) list \<Rightarrow> (nat, accumulator) env" where
  "demo_env fs =
     \<lparr>get_tfms = (\<lambda>h. demo_tfms),
      load_obj = (\<lambda>path. if path = ''torch.optim.SGD'' then Inr ''SGD''
                         else if path = ''torch.optim.lr_scheduler.StepLR'' then Inr ''StepLR''
                         else if path = ''pytorch_lightning.loggers.TensorBoardLogger''
                           then Inr ''TensorBoardLogger''
                         else Inl (Raised ''ModuleNotFoundError'')),
      read_csv = read_csv_from fs,
      getsize = getsize_from fs,
      ds_len = (\<lambda>ds. length (rows (ds_df ds))),
      ds_getitem = (\<lambda>ds idx. case idx of
                      PyInt i \<Rightarrow>
                        if 0 \<le> i \<and> i < int (length (rows (ds_df ds)))
                        then Inr (nat i, [(''image_id'', Ints [i])], i)
                        else Inl IndexError
                    | _ \<Rightarrow> Inl TypeError),
      CocoEvaluator = acc_new,
      ev_update = acc_update,
      ev_accumulate = acc_accumulate,
      ev_summarize = acc_summarize (1 / 2),
      ev_coco_eval = acc_coco_eval\<rparr>"

definition demo_module :: "(nat, accumulator) detection_model" where
  "demo_module = DetectionModel stub_model demo_hparams"

definition demo_batch :: "nat batch" where
  "demo_batch = ([0, 1], [[(''image_id'', Ints [0])], [(''image_id'', Ints [1])]], [0, 1])"

text \<open>The module after \<open>prepare_data\<close> (its log apart), and with a new evaluator for the test split.\<close>

definition prepared_module :: "(nat, accumulator) detection_model" where
  "prepared_module =
     demo_module\<lparr>tfms := Some demo_tfms, trn_df := Some demo_train_df,
                  val_df := Some demo_valid_df, test_df := Some demo_test_df\<rparr>"

definition demo_accumulator :: accumulator where
  "demo_accumulator =
     acc_new (CocoOf (DetectionDataset demo_test_df (Compose [''ToTensor'']))) [''bbox'']"

definition testing_module :: "(nat, accumulator) detection_model" where
  "testing_module = prepared_module\<lparr>test_evaluator := Some demo_accumulator\<rparr>"

definition stub_detection :: "nat \<Rightarrow> detection" where
  "stub_detection img = \<lparr>boxes = [], labels = [int img], scores = [1]\<rparr>"

text \<open>A training source that holds its header line and no record.\<close>

definition empty_train_files :: "(string \<times> csv_file) list" where
  "empty_train_files =
     [(''train.csv'', file_of 16 \<lparr>columns = [''filename'', ''labels''], rows = []\<rparr>),
      (''valid.csv'', file_of 24 demo_valid_df),
      (''test.csv'', file_of 24 demo_test_df)]"

definition demo_trainer_conf :: trainer_conf where
  "demo_trainer_conf =
     \<lparr>early_stopping_params = [(''monitor'', PyStr ''val_loss''), (''patience'', PyInt 3)],
      model_checkpoint_params = [(''filepath'', PyStr ''checkpoints'')],
      learning_rate_monitor_params = [(''logging_interval'', PyStr ''step'')],
      logger_class_name = ''pytorch_lightning.loggers.TensorBoardLogger'',
      logger_params = [(''save_dir'', PyStr ''logs'')],
      flags = [(''max_epochs'', PyInt 1)]\<rparr>"

text \<open>A configuration whose data-loading options set \<open>shuffle\<close>.\<close>

definition shuffle_hparams :: hparams where
  "shuffle_hparams = demo_hparams\<lparr>dataloader := [(''shuffle'', PyBool True)]\<rparr>"

text \<open>A configuration whose data-loading options name a sampler: the indices 1 and 0.\<close>

definition sampler_hparams :: hparams where
  "sampler_hparams = demo_hparams\<lparr>dataloader := [(''sampler'', PyList [PyInt 1, PyInt 0])]\<rparr>"

section \<open>Properties\<close>

lemma foldl_add_sum_list: "foldl (+) a xs = a + sum_list (xs :: real list)"
  by (induction xs arbitrary: a) auto

lemma py_sum_sum_list: "py_sum xs = sum_list xs"
  by (simp add: py_sum_def foldl_add_sum_list)

lemma update_fresh: "k \<notin> fst ` set al \<Longrightarrow> AList.update k v al = al @ [(k, v)]"
  by (induction al) auto

lemma foldl_update_fresh:
  "distinct (map fst kvs) \<Longrightarrow> fst ` set kvs \<inter> fst ` set d = {} \<Longrightarrow>
     foldl (\<lambda>d (k, v). AList.update k v d) d kvs = d @ kvs"
proof (induction kvs arbitrary: d)
  case Nil
  then show ?case by simp
next
  case (Cons kv kvs)
  obtain k v where kv: "kv = (k, v)" by (cases kv)
  from Cons.prems kv have fresh: "k \<notin> fst ` set d" by auto
  have "foldl (\<lambda>d (k, v). AList.update k v d) (d @ [(k, v)]) kvs = (d @ [(k, v)]) @ kvs"
    using Cons.prems kv by (intro Cons.IH) auto
  with fresh kv show ?case by (simp add: update_fresh)
qed

lemma dict_comp_dict: "distinct (map fst d) \<Longrightarrow> dict_comp d = d"
  using foldl_update_fresh [of d "[]"] by (simp add: dict_comp_def)

lemma map_of_foldl_update:
  "map_of (foldl (\<lambda>d (k, v). AList.update k v d) d kvs) = map_of (rev kvs @ d)"
proof (induction kvs arbitrary: d)
  case Nil
  then show ?case by simp
next
  case (Cons kv kvs)
  obtain k v where kv: "kv = (k, v)" by (cases kv)
  show ?case
    by (simp add: kv Cons.IH AList.update_conv' map_add_def fun_eq_iff split: option.splits)
qed

lemma map_of_dict_comp: "map_of (dict_comp kvs) = map_of (rev kvs)"
  by (simp add: dict_comp_def map_of_foldl_update)

lemma distinct_foldl_update:
  "distinct (map fst d) \<Longrightarrow> distinct (map fst (foldl (\<lambda>d (k, v). AList.update k v d) d kvs))"
  by (induction kvs arbitrary: d) (auto simp: AList.distinct_update)

lemma distinct_dict_comp: "distinct (map fst (dict_comp kvs))"
  by (simp add: dict_comp_def distinct_foldl_update)

lemma keys_dict_comp: "set (map fst (dict_comp kvs)) = set (map fst kvs)"
proof -
  have "fst ` set (dict_comp kvs) = dom (map_of (dict_comp kvs))"
    by (simp add: dom_map_of_conv_image_fst)
  also have "\<dots> = fst ` set kvs"
    by (simp add: map_of_dict_comp dom_map_of_conv_image_fst)
  finally show ?thesis by simp
qed

lemma res_pairs_values:
  "res_pairs tos = Inr kvs \<Longrightarrow> map snd kvs = map snd tos"
  by (induction tos arbitrary: kvs) (auto simp: on_ok_def split: sum.splits)

lemma map_snd_zip_take: "map snd (zip xs ys) = take (length xs) ys"
proof (induction xs arbitrary: ys)
  case Nil
  then show ?case by simp
next
  case (Cons x xs)
  then show ?case by (cases ys) auto
qed

lemma test_step_unfold:
  "test_step env s (images, targets, ids) i =
     on_ok (res_pairs (zip (map (\<lambda>t. dict_comp (items t)) targets) (predict (model s) images))) (\<lambda>kvs.
     on_ok (attr (test_evaluator s)) (\<lambda>ev.
     on_ok (ev_update env ev (dict_comp kvs)) (\<lambda>ev'.
     Inr ([], s\<lparr>test_evaluator := Some ev'\<rparr>))))"
  by (simp add: test_step_def Let_def)

lemma test_dataloader_result:
  assumes "test_dataloader env s = Inr (loader, s')"
  shows "s' = s\<lparr>test_evaluator := Some (CocoEvaluator env (get_coco_api_from_dataset (dl_dataset loader)) [iou_types (hparams s)])\<rparr>"
  using assms
  by (auto simp: test_dataloader_def on_ok_def Let_def split: sum.splits)

lemma test_dataloader_ignores_evaluator:
  assumes "test_dataloader env s = Inr (loader, s')"
  shows "test_dataloader env (s\<lparr>test_evaluator := old\<rparr>) = Inr (loader, s')"
  using assms
  by (auto simp: test_dataloader_def on_ok_def Let_def split: sum.splits)

lemma demo_test_dataloader:
  "test_dataloader (demo_env demo_files) (prepared_module\<lparr>test_evaluator := old\<rparr>) =
     Inr (\<lparr>dl_dataset = DetectionDataset demo_test_df (Compose [''ToTensor'']), dl_batch_size = 2,
           dl_shuffle = False, dl_sampler = PyNone, dl_batch_sampler = PyNone,
           dl_drop_last = False, dl_options = [(''num_workers'', PyInt 0)]\<rparr>,
          testing_module)"
  by (simp add: test_dataloader_def on_ok_def attr_def getitem_def Let_def DataLoader_def
      kwarg_def truthy_def get_coco_api_from_dataset_def
      testing_module_def prepared_module_def demo_module_def DetectionModel_def demo_hparams_def
      demo_env_def demo_tfms_def demo_accumulator_def)

lemma on_train_start_writes_log_only:
  assumes "on_train_start env tr s = Inr s'"
  shows "\<exists>n. s' = s\<lparr>fancy_logger := fancy_logger s @ [LogTrainingOn n, LogTrainingFrom (global_step tr)]\<rparr>"
  using assms
  by (auto simp: on_train_start_def train_dataloader_def on_ok_def Let_def info_def
      split: sum.splits)

lemma demo_prepare_data:
  "prepare_data (demo_env demo_files) demo_module =
     Inr (prepared_module\<lparr>fancy_logger :=
            [LogAugmentations [''HorizontalFlip'', ''ToTensor''],
             LogSerialized ''train'' ''train.csv'', LogSize 40,
             LogSerialized ''validation'' ''valid.csv'', LogSize 24,
             LogSerialized ''test'' ''test.csv'', LogSize 24]\<rparr>)"
  by (simp add: prepare_data_def on_ok_def attr_def getitem_def Let_def info_def
        demo_env_def demo_files_def read_csv_from_def getsize_from_def file_of_def
        demo_module_def DetectionModel_def demo_hparams_def demo_tfms_def prepared_module_def
        demo_train_df_def demo_valid_df_def demo_test_df_def)

lemma collate_fn_nth:
  assumes "collate_fn samples = (images, targets, ids)"
  shows "length images = length samples \<and> length targets = length samples
       \<and> length ids = length samples
       \<and> (\<forall>i < length samples. samples ! i = (images ! i, targets ! i, ids ! i))"
  using assms by (auto simp: collate_fn_def split: prod.splits)

lemma concat_chunks: "0 < k \<Longrightarrow> concat (chunks k xs) = xs"
proof (induction k xs rule: chunks.induct)
  case (1 k xs)
  show ?case
  proof (cases "xs = []")
    case True
    then show ?thesis by (simp add: chunks.simps)
  next
    case False
    with "1.prems" have "concat (chunks k (drop k xs)) = drop k xs"
      by (intro "1.IH") auto
    with False "1.prems" show ?thesis
      by (subst chunks.simps) simp
  qed
qed

lemma concat_full_chunks:
  "0 < k \<Longrightarrow>
     concat (filter (\<lambda>r. length r = k) (chunks k xs)) = take (length xs - length xs mod k) xs"
proof (induction k xs rule: chunks.induct)
  case (1 k xs)
  show ?case
  proof (cases "xs = []")
    case True
    then show ?thesis by (simp add: chunks.simps)
  next
    case False
    with "1.prems" have ih: "concat (filter (\<lambda>r. length r = k) (chunks k (drop k xs)))
        = take (length (drop k xs) - length (drop k xs) mod k) (drop k xs)"
      by (intro "1.IH") auto
    have unfold: "chunks k xs = take k xs # chunks k (drop k xs)"
      using False "1.prems" by (subst chunks.simps) simp
    show ?thesis
    proof (cases "k \<le> length xs")
      case True
      then have m: "(length xs - k) mod k = length xs mod k"
        by (simp add: le_mod_geq)
      have "length xs mod k \<le> length xs - k"
        using True "1.prems" by (metis m mod_less_eq_dividend)
      then have "length xs - length xs mod k = k + (length xs - k - length xs mod k)"
        using True by simp
      then have "take (length xs - length xs mod k) xs
          = take k xs @ take (length xs - k - length xs mod k) (drop k xs)"
        by (simp add: take_add)
      with True ih m unfold show ?thesis by simp
    next
      case False
      then have "length xs < k" by simp
      then show ?thesis
        using unfold by (simp add: chunks.simps)
    qed
  qed
qed

lemma upt_0_2: "[0..<2] = [0, Suc 0]"
  by (simp add: numeral_2_eq_2)

lemma demo_train_dataloader:
  "train_dataloader (demo_env demo_files) prepared_module =
     Inr (\<lparr>dl_dataset = DetectionDataset demo_train_df (Compose [''HorizontalFlip'', ''ToTensor'']),
           dl_batch_size = 2, dl_shuffle = True, dl_sampler = PyNone,
           dl_batch_sampler = PyNone, dl_drop_last = False,
           dl_options = [(''num_workers'', PyInt 0)]\<rparr>, prepared_module)"
  by (simp add: train_dataloader_def on_ok_def attr_def getitem_def Let_def DataLoader_def
      kwarg_def truthy_def
      prepared_module_def demo_module_def DetectionModel_def demo_hparams_def
      demo_env_def demo_tfms_def)

lemma demo_val_dataloader:
  "val_dataloader (demo_env demo_files) prepared_module =
     Inr (\<lparr>dl_dataset = DetectionDataset demo_valid_df (Compose [''ToTensor'']),
           dl_batch_size = 2, dl_shuffle = False, dl_sampler = PyNone,
           dl_batch_sampler = PyNone, dl_drop_last = False,
           dl_options = [(''num_workers'', PyInt 0)]\<rparr>, prepared_module)"
  by (simp add: val_dataloader_def on_ok_def attr_def getitem_def Let_def DataLoader_def
      kwarg_def truthy_def
      prepared_module_def demo_module_def DetectionModel_def demo_hparams_def
      demo_env_def demo_tfms_def)

lemma prepare_data_unfold:
  "prepare_data env s =
     on_ok (getitem (get_tfms env (hparams s)) ''train'') (\<lambda>c.
     on_ok (read_csv env (train_csv (hparams s))) (\<lambda>a.
     on_ok (getsize env (train_csv (hparams s))) (\<lambda>n1.
     on_ok (read_csv env (valid_csv (hparams s))) (\<lambda>b.
     on_ok (getsize env (valid_csv (hparams s))) (\<lambda>n2.
     on_ok (read_csv env (test_csv (hparams s))) (\<lambda>d.
     on_ok (getsize env (test_csv (hparams s))) (\<lambda>n3.
       Inr (s\<lparr>tfms := Some (get_tfms env (hparams s)), trn_df := Some a, val_df := Some b,
              test_df := Some d,
              fancy_logger := fancy_logger s @
                [LogAugmentations (map (\<lambda>i. transforms c ! i) [0..<length (transforms c)]),
                 LogSerialized ''train'' (train_csv (hparams s)), LogSize n1,
                 LogSerialized ''validation'' (valid_csv (hparams s)), LogSize n2,
                 LogSerialized ''test'' (test_csv (hparams s)), LogSize n3]\<rparr>))))))))"
  by (simp add: prepare_data_def on_ok_def attr_def Let_def info_def split: sum.splits)

lemma demo_paths:
  "train_csv (hparams demo_module) = ''train.csv''"
  "valid_csv (hparams demo_module) = ''valid.csv''"
  "test_csv (hparams demo_module) = ''test.csv''"
  "get_tfms (demo_env fs) (hparams demo_module) = demo_tfms"
  by (simp_all add: demo_module_def DetectionModel_def demo_hparams_def demo_env_def)

lemma demo_reads:
  "read_csv (demo_env fs) = read_csv_from fs"
  "getsize (demo_env fs) = getsize_from fs"
  by (simp_all add: demo_env_def)

lemma on_test_start_result:
  assumes "on_test_start env tr s = Inr s'"
  shows "\<exists>loader. test_dataloader env s = Inr (loader, s\<lparr>test_evaluator := test_evaluator s'\<rparr>)
           \<and> test_evaluator s' =
               Some (CocoEvaluator env (get_coco_api_from_dataset (dl_dataset loader)) [iou_types (hparams s)])
           \<and> s' = s\<lparr>fancy_logger := fancy_logger s @ [LogInferenceOn (ds_len env (dl_dataset loader))],
                    test_evaluator := test_evaluator s'\<rparr>"
  using assms
  by (auto simp: on_test_start_def test_dataloader_def on_ok_def Let_def info_def
      split: sum.splits)

lemma train_dataloader_state:
  "train_dataloader env s = Inr (dl, s0) \<Longrightarrow> s0 = s"
  by (auto simp: train_dataloader_def on_ok_def Let_def split: sum.splits)

lemma test_dataloader_again:
  assumes "test_dataloader env s = Inr (dl, s1)"
  shows "test_dataloader env s1 = Inr (dl, s1)"
proof -
  from test_dataloader_result [OF assms] obtain ev where s1: "s1 = s\<lparr>test_evaluator := ev\<rparr>"
    by blast
  from test_dataloader_ignores_evaluator [OF assms, of ev] s1 show ?thesis by simp
qed

lemma demo_initialize_trainer:
  "initialize_trainer (demo_env demo_files) demo_trainer_conf [] =
     Inr \<lparr>global_step = 0,
          tr_logger = [(''TensorBoardLogger'', [(''save_dir'', PyStr ''logs'')])],
          checkpoint_callback = [(''filepath'', PyStr ''checkpoints'')],
          early_stop_callback = [(''monitor'', PyStr ''val_loss''), (''patience'', PyInt 3)],
          callbacks = [LearningRateLogger [(''logging_interval'', PyStr ''step'')], LogCallback],
          tr_flags = [(''max_epochs'', PyInt 1)]\<rparr>"
  by (simp add: initialize_trainer_def Trainer_def on_ok_def Let_def demo_env_def demo_trainer_conf_def)

lemma res_pairs_zip:
  "length ts = length outs \<Longrightarrow> length outs = length ks \<Longrightarrow>
   (\<forall>i < length ts. on_ok (getitem (ts ! i) ''image_id'') item = Inr (ks ! i)) \<Longrightarrow>
   res_pairs (zip ts outs) = Inr (zip ks outs)"
proof (induction ts outs ks rule: list_induct3)
  case Nil
  then show ?case by simp
next
  case (Cons t ts out outs k ks)
  from Cons.prems have hd: "on_ok (getitem t ''image_id'') item = Inr k"
    by (metis length_Cons nth_Cons_0 zero_less_Suc)
  have "\<forall>i < length ts. on_ok (getitem (ts ! i) ''image_id'') item = Inr (ks ! i)"
  proof (intro allI impI)
    fix i assume "i < length ts"
    then have "Suc i < length (t # ts)" by simp
    with Cons.prems have "on_ok (getitem ((t # ts) ! Suc i) ''image_id'') item = Inr ((k # ks) ! Suc i)"
      by blast
    then show "on_ok (getitem (ts ! i) ''image_id'') item = Inr (ks ! i)" by simp
  qed
  then have "res_pairs (zip ts outs) = Inr (zip ks outs)" by (rule Cons.IH)
  with hd show ?case
    by (auto simp: on_ok_def split: sum.splits)
qed

lemma dict_comp_zip_distinct:
  "distinct ks \<Longrightarrow> length ks = length outs \<Longrightarrow> dict_comp (zip ks outs) = zip ks outs"
  by (rule dict_comp_dict) simp

lemma DataLoader_result:
  assumes "DataLoader ds bs sh kw = Inr dl"
  shows "dl_shuffle dl = (case sh of Some b \<Rightarrow> b | None \<Rightarrow> truthy (kwarg kw ''shuffle'' (PyBool False)))"
    and "dl_sampler dl = kwarg kw ''sampler'' PyNone"
    and "dl_batch_sampler dl = kwarg kw ''batch_sampler'' PyNone"
    and "dl_batch_sampler dl = PyNone \<Longrightarrow> 0 < dl_batch_size dl"
    and "dl_shuffle dl \<Longrightarrow> dl_sampler dl = PyNone \<and> dl_batch_sampler dl = PyNone"
  using assms
  by (auto simp: DataLoader_def Let_def split: if_splits pyval.splits)

lemma sequential_batch_indices:
  assumes "\<not> dl_shuffle dl" and "dl_sampler dl = PyNone" and "dl_batch_sampler dl = PyNone"
      and "0 < dl_batch_size dl"
  shows "\<exists>runs. (\<forall>rp. batch_indices dl n rp = Inr runs)
           \<and> concat runs = map (\<lambda>i. PyInt (int i))
               (take (if dl_drop_last dl then n - n mod nat (dl_batch_size dl) else n) [0..<n])"
  using assms
  by (simp add: batch_indices_def sample_order_def on_ok_def Let_def concat_chunks
      concat_full_chunks take_map)

lemma configured_sampler_order:
  "map_sum id (\<lambda>(dl, s'). (dl_shuffle dl, batch_indices dl 2 (\<lambda>n. [0..<n])))
       (val_dataloader (demo_env demo_files) (prepared_module\<lparr>hparams := sampler_hparams\<rparr>))
     = Inr (False, Inr [[PyInt 1, PyInt 0]])"
  by (simp add: val_dataloader_def on_ok_def attr_def getitem_def Let_def
      DataLoader_def kwarg_def truthy_def py_iter_def
      prepared_module_def demo_module_def DetectionModel_def demo_hparams_def sampler_hparams_def
      demo_env_def demo_tfms_def batch_indices_def sample_order_def chunks.simps)

text \<open>
  C1. The scalar loss a train step returns is the sum of the components of the loss dict
  the model's forward pass produced for the batch, and the step logs that dict; for a
  model whose forward pass gives \<open>{cls: 0.3, reg: 0.2}\<close> the step reports 0.5.
\<close>

theorem training_step_loss_is_sum:
  assumes "training_step s (images, targets, ids) i = (out, s')"
  shows "out_log out = forward (model s) images (map (\<lambda>t. dict_comp (items t)) targets)
       \<and> out_loss out = sum_list (map snd (out_log out))
       \<and> (out_log out = [(''cls'', 3 / 10), (''reg'', 2 / 10)] \<longrightarrow> out_loss out = 1 / 2)"
  using assms by (auto simp: training_step_def Let_def py_sum_sum_list values_of_def)

theorem training_step_loss_is_sum_witness:
  "out_loss (fst (training_step demo_module demo_batch 0)) = 1 / 2
   \<and> out_log (fst (training_step demo_module demo_batch 0)) = [(''cls'', 3 / 10), (''reg'', 2 / 10)]"
proof -
  obtain out s' where r: "training_step demo_module ([0, 1], [[(''image_id'', Ints [0])], [(''image_id'', Ints [1])]], [0, 1]) 0 = (out, s')"
    by (cases "training_step demo_module ([0, 1], [[(''image_id'', Ints [0])], [(''image_id'', Ints [1])]], [0, 1]) 0")
  have l: "out_log out = [(''cls'', 3 / 10), (''reg'', 2 / 10)]"
    using training_step_loss_is_sum [OF r]
    by (simp add: demo_module_def DetectionModel_def stub_model_def)
  with training_step_loss_is_sum [OF r] have "out_loss out = 1 / 2"
    by blast
  with l r show ?thesis
    by (simp add: demo_batch_def)
qed

text \<open>
  C2, as it holds of the code. The test step hands \<open>update\<close> one mapping per batch, built by a dict
  comprehension: each image identifier of the batch occurs in it once, bound to the output
  of its last occurrence, so two occurrences of an identifier within one batch are merged
  silently and never reach \<open>update\<close> as a duplicate. The step calls \<open>update\<close> once with that
  mapping and propagates whatever \<open>update\<close> raises; whether an identifier submitted by an
  earlier batch is refused is decided by the evaluator alone.
\<close>

theorem test_step_merges_batch_duplicates:
  assumes "test_evaluator s = Some ev"
      and "res_pairs (zip (map (\<lambda>t. dict_comp (items t)) targets) (predict (model s) images)) = Inr kvs"
  shows "distinct (map fst (dict_comp kvs))
       \<and> set (map fst (dict_comp kvs)) = set (map fst kvs)
       \<and> map_of (dict_comp kvs) = map_of (rev kvs)
       \<and> test_step env s (images, targets, ids) i =
           (case ev_update env ev (dict_comp kvs) of
              Inl e \<Rightarrow> Inl e
            | Inr ev' \<Rightarrow> Inr ([], s\<lparr>test_evaluator := Some ev'\<rparr>))"
  using assms keys_dict_comp [of kvs]
  by (simp add: distinct_dict_comp map_of_dict_comp test_step_unfold on_ok_def attr_def)

theorem test_step_merges_batch_duplicates_witness:
  "test_step (demo_env demo_files)
     (testing_module\<lparr>test_evaluator := Some (demo_accumulator\<lparr>acc_results := [(0, stub_detection 0), (1, stub_detection 1)]\<rparr>)\<rparr>)
     ([1, 2], [[(''image_id'', Ints [1])], [(''image_id'', Ints [2])]], [1, 2]) 1
   = Inl (Raised ''DuplicateImageError'')"
proof -
  have e: "test_evaluator (testing_module\<lparr>test_evaluator := Some (demo_accumulator\<lparr>acc_results := [(0, stub_detection 0), (1, stub_detection 1)]\<rparr>)\<rparr>)
        = Some (demo_accumulator\<lparr>acc_results := [(0, stub_detection 0), (1, stub_detection 1)]\<rparr>)"
    by simp
  have k: "res_pairs (zip (map (\<lambda>t. dict_comp (items t)) [[(''image_id'', Ints [1])], [(''image_id'', Ints [2])]])
             (predict (model (testing_module\<lparr>test_evaluator := Some (demo_accumulator\<lparr>acc_results := [(0, stub_detection 0), (1, stub_detection 1)]\<rparr>)\<rparr>)) [1, 2]))
        = Inr [(1, stub_detection 1), (2, stub_detection 2)]"
    by (simp add: on_ok_def dict_comp_def items_def getitem_def item_def
        testing_module_def prepared_module_def demo_module_def DetectionModel_def stub_model_def
        stub_detection_def)
  from test_step_merges_batch_duplicates [OF e k, of "demo_env demo_files" "[1, 2]" 1]
  show ?thesis
    by (simp add: dict_comp_def demo_env_def acc_update_def)
qed

theorem test_step_duplicate_in_batch_counterexample:
  "test_step (demo_env demo_files) testing_module
     ([5, 6], [[(''image_id'', Ints [7])], [(''image_id'', Ints [7])]], [7, 7]) 0
   = Inr ([], testing_module\<lparr>test_evaluator :=
               Some (demo_accumulator\<lparr>acc_results := [(7, stub_detection 6)]\<rparr>)\<rparr>)"
  by (simp add: test_step_unfold on_ok_def attr_def dict_comp_def items_def getitem_def item_def
        testing_module_def prepared_module_def demo_module_def DetectionModel_def stub_model_def
        demo_env_def acc_update_def demo_accumulator_def acc_new_def stub_detection_def)

text \<open>
  C3. \<open>test_dataloader\<close>, the entry of a test pass, stores a newly constructed evaluator
  on the module, built from the test dataset and the configured IoU type only: whatever
  evaluator an earlier pass left behind is replaced and plays no part. \<open>test_epoch_end\<close>
  finalizes the module's evaluator by one \<open>accumulate\<close> followed by one \<open>summarize\<close>.
\<close>

theorem test_accumulator_new_and_finalized_once:
  assumes "test_dataloader env s = Inr (loader, s1)"
      and "test_epoch_end env s2 outputs = Inr (res, s3)"
  shows "test_evaluator s1 =
           Some (CocoEvaluator env (get_coco_api_from_dataset (dl_dataset loader)) [iou_types (hparams s)])
       \<and> (\<forall>old. test_dataloader env (s\<lparr>test_evaluator := old\<rparr>) = Inr (loader, s1))
       \<and> (\<exists>ev ev1 ev2. test_evaluator s2 = Some ev
             \<and> ev_accumulate env ev = Inr ev1
             \<and> ev_summarize env ev1 = Inr ev2
             \<and> test_evaluator s3 = Some ev2)"
proof -
  from assms(2) have "\<exists>ev ev1 ev2. test_evaluator s2 = Some ev
             \<and> ev_accumulate env ev = Inr ev1
             \<and> ev_summarize env ev1 = Inr ev2
             \<and> test_evaluator s3 = Some ev2"
    by (auto simp: test_epoch_end_def on_ok_def attr_def Let_def info_def
        split: sum.splits option.splits list.splits)
  with test_dataloader_result [OF assms(1)] test_dataloader_ignores_evaluator [OF assms(1)]
  show ?thesis by simp
qed

theorem test_accumulator_new_and_finalized_once_witness:
  "test_dataloader (demo_env demo_files)
     (prepared_module\<lparr>test_evaluator :=
        Some (demo_accumulator\<lparr>acc_results := [(0, stub_detection 0)], acc_accumulated := True, acc_stats := [1 / 2]\<rparr>)\<rparr>)
     = Inr (\<lparr>dl_dataset = DetectionDataset demo_test_df (Compose [''ToTensor'']), dl_batch_size = 2,
             dl_shuffle = False, dl_sampler = PyNone, dl_batch_sampler = PyNone,
           dl_drop_last = False, dl_options = [(''num_workers'', PyInt 0)]\<rparr>,
            testing_module)
   \<and> test_evaluator testing_module = Some demo_accumulator
   \<and> acc_results demo_accumulator = []
   \<and> map_sum id (\<lambda>(res, s). (ep_AP res, test_evaluator s))
        (test_epoch_end (demo_env demo_files)
           (testing_module\<lparr>test_evaluator := Some (demo_accumulator\<lparr>acc_results := [(0, stub_detection 0)]\<rparr>)\<rparr>) [[]])
     = Inr (1 / 2, Some (demo_accumulator\<lparr>acc_results := [(0, stub_detection 0)],
                                            acc_accumulated := True, acc_stats := [1 / 2]\<rparr>))"
proof -
  let ?old = "Some (demo_accumulator\<lparr>acc_results := [(0, stub_detection 0)], acc_accumulated := True, acc_stats := [1 / 2]\<rparr>)"
  let ?s2 = "testing_module\<lparr>test_evaluator := Some (demo_accumulator\<lparr>acc_results := [(0, stub_detection 0)]\<rparr>)\<rparr>"
  have r1: "test_dataloader (demo_env demo_files) (prepared_module\<lparr>test_evaluator := ?old\<rparr>)
     = Inr (\<lparr>dl_dataset = DetectionDataset demo_test_df (Compose [''ToTensor'']), dl_batch_size = 2,
             dl_shuffle = False, dl_sampler = PyNone, dl_batch_sampler = PyNone,
           dl_drop_last = False, dl_options = [(''num_workers'', PyInt 0)]\<rparr>,
            testing_module)"
    by (rule demo_test_dataloader)
  have r2: "test_epoch_end (demo_env demo_files) ?s2 [[]]
     = Inr (\<lparr>ep_AP = 1 / 2, ep_log = [(''AP'', 1 / 2)], ep_progress_bar = [(''AP'', 1 / 2)]\<rparr>,
            info LogEvaluationResults ?s2\<lparr>test_evaluator :=
               Some (demo_accumulator\<lparr>acc_results := [(0, stub_detection 0)],
                                       acc_accumulated := True, acc_stats := [1 / 2]\<rparr>)\<rparr>)"
    by (simp add: test_epoch_end_def on_ok_def attr_def getitem_def Let_def info_def
        demo_env_def acc_accumulate_def acc_summarize_def acc_coco_eval_def
        demo_accumulator_def acc_new_def)
  from test_accumulator_new_and_finalized_once [OF r1 r2]
  have "test_evaluator testing_module = Some demo_accumulator"
    by (simp add: testing_module_def)
  with r1 r2 show ?thesis
    by (simp add: demo_accumulator_def acc_new_def)
qed

text \<open>
  C4. When \<open>configure_optimizers\<close> returns, the one optimizer it returns (the one stored
  on the module and wrapped by the scheduler) was constructed from exactly the model
  parameters whose \<open>requires_grad\<close> is true, in the model's order: a frozen parameter is
  not in its parameter list, a trainable one is.
\<close>

theorem configure_optimizers_binds_trainable:
  assumes "configure_optimizers env s = Inr ((opts, scheds), s')"
  shows "\<exists>opt sd. opts = [opt] \<and> scheds = [sd] \<and> optimizer s' = Some opt
           \<and> sch_optimizer (sd_scheduler sd) = opt
           \<and> param_groups opt = filter requires_grad (parameters (model s))
           \<and> (\<forall>p. p \<in> set (param_groups opt) \<longleftrightarrow> p \<in> set (parameters (model s)) \<and> requires_grad p)"
  using assms
  by (auto simp: configure_optimizers_def on_ok_def Let_def info_def split: sum.splits)

theorem configure_optimizers_binds_trainable_witness:
  "\<exists>sd s'. configure_optimizers (demo_env demo_files) demo_module =
        Inr (([\<lparr>opt_class = ''SGD'',
                 param_groups = [\<lparr>p_name = ''head.weight'', requires_grad = True\<rparr>],
                 opt_kwargs = [(''lr'', PyFloat (1 / 100))]\<rparr>], [sd]), s')"
proof -
  obtain opts scheds s' where r: "configure_optimizers (demo_env demo_files) demo_module = Inr ((opts, scheds), s')"
    by (auto simp: configure_optimizers_def on_ok_def Let_def demo_env_def demo_module_def
        DetectionModel_def demo_hparams_def)
  from configure_optimizers_binds_trainable [OF r] obtain opt sd where
    o: "opts = [opt]" "scheds = [sd]" "optimizer s' = Some opt"
       "param_groups opt = filter requires_grad (parameters (model demo_module))"
    by blast
  from r o(3) have "opt_class opt = ''SGD''" "opt_kwargs opt = [(''lr'', PyFloat (1 / 100))]"
    by (auto simp: configure_optimizers_def on_ok_def Let_def demo_env_def demo_module_def
        DetectionModel_def demo_hparams_def info_def)
  moreover from o(4) have "param_groups opt = [\<lparr>p_name = ''head.weight'', requires_grad = True\<rparr>]"
    by (simp add: demo_module_def DetectionModel_def stub_model_def)
  ultimately have "opt = \<lparr>opt_class = ''SGD'',
                 param_groups = [\<lparr>p_name = ''head.weight'', requires_grad = True\<rparr>],
                 opt_kwargs = [(''lr'', PyFloat (1 / 100))]\<rparr>"
    by (cases opt) simp
  with r o(1,2) show ?thesis by blast
qed

text \<open>
  C5, as it holds of the code. The validation step leaves the module unchanged: the model with its
  parameters, the optimizer and every other attribute are what they were. It returns an
  evaluation result with the single entry \<open>val_loss\<close>, the sum of the components of the
  loss dict, logged per epoch to the progress bar and the logger; the components
  themselves are not returned.
\<close>

theorem validation_step_reads_only:
  assumes "validation_step s (images, targets, ids) i = (result, s')"
  shows "s' = s
       \<and> result = [\<lparr>lg_name = ''val_loss'',
                     lg_value = sum_list (map snd (forward (model s) images (map (\<lambda>t. dict_comp (items t)) targets))),
                     lg_on_step = False, lg_on_epoch = True, lg_prog_bar = True, lg_logger = True\<rparr>]"
  using assms
  by (auto simp: validation_step_def Let_def EvalResult_def result_log_def py_sum_sum_list values_of_def)

theorem validation_step_reads_only_witness:
  "validation_step demo_module demo_batch 0 =
     ([\<lparr>lg_name = ''val_loss'', lg_value = 1 / 2,
        lg_on_step = False, lg_on_epoch = True, lg_prog_bar = True, lg_logger = True\<rparr>], demo_module)"
proof -
  obtain result s' where r: "validation_step demo_module ([0, 1], [[(''image_id'', Ints [0])], [(''image_id'', Ints [1])]], [0, 1]) 0 = (result, s')"
    by (cases "validation_step demo_module ([0, 1], [[(''image_id'', Ints [0])], [(''image_id'', Ints [1])]], [0, 1]) 0")
  from validation_step_reads_only [OF r] have "s' = demo_module"
    and "result = [\<lparr>lg_name = ''val_loss'', lg_value = 1 / 2,
        lg_on_step = False, lg_on_epoch = True, lg_prog_bar = True, lg_logger = True\<rparr>]"
    by (simp_all add: demo_module_def DetectionModel_def stub_model_def)
  with r show ?thesis by (simp add: demo_batch_def)
qed

theorem validation_step_returns_breakdown_counterexample:
  "map (\<lambda>l. (lg_name l, lg_value l)) (fst (validation_step demo_module demo_batch 0))
     \<noteq> forward (model demo_module) (fst demo_batch) (fst (snd demo_batch))"
  by (simp add: validation_step_def Let_def EvalResult_def result_log_def demo_batch_def
      demo_module_def DetectionModel_def stub_model_def)

text \<open>
  C6, as it holds of the code. The test step returns an empty dict. The detections are the outputs of
  the model's \<open>predict\<close> on the batch's images, paired by position with the targets; they
  are submitted to the evaluator under the targets' image identifiers and stay there. No
  loss is computed: replacing the model's loss computation changes nothing of the step.
\<close>

theorem test_step_submits_predictions:
  assumes "test_step env s (images, targets, ids) i = Inr (out, s')"
  shows "out = []
       \<and> (\<exists>kvs ev ev'.
             res_pairs (zip (map (\<lambda>t. dict_comp (items t)) targets) (predict (model s) images)) = Inr kvs
           \<and> map snd kvs = take (length targets) (predict (model s) images)
           \<and> test_evaluator s = Some ev
           \<and> ev_update env ev (dict_comp kvs) = Inr ev'
           \<and> s' = s\<lparr>test_evaluator := Some ev'\<rparr>)
       \<and> (\<forall>f. test_step env (s\<lparr>model := (model s)\<lparr>forward := f\<rparr>\<rparr>) (images, targets, ids) i
               = Inr ([], s'\<lparr>model := (model s)\<lparr>forward := f\<rparr>\<rparr>))"
proof -
  from assms obtain kvs ev ev' where
    k: "res_pairs (zip (map (\<lambda>t. dict_comp (items t)) targets) (predict (model s) images)) = Inr kvs"
    and e: "test_evaluator s = Some ev"
    and u: "ev_update env ev (dict_comp kvs) = Inr ev'"
    and o: "out = []" and s': "s' = s\<lparr>test_evaluator := Some ev'\<rparr>"
    by (auto simp: test_step_unfold on_ok_def attr_def split: sum.splits option.splits)
  from k have "map snd kvs = take (length targets) (predict (model s) images)"
    by (simp add: res_pairs_values map_snd_zip_take)
  moreover have "test_step env (s\<lparr>model := (model s)\<lparr>forward := f\<rparr>\<rparr>) (images, targets, ids) i
               = Inr ([], s'\<lparr>model := (model s)\<lparr>forward := f\<rparr>\<rparr>)" for f
    using k e u s' by (simp add: test_step_unfold on_ok_def attr_def)
  ultimately show ?thesis using k e u o s' by blast
qed

theorem test_step_submits_predictions_witness:
  "test_step (demo_env demo_files) testing_module demo_batch 0 =
     Inr ([], testing_module\<lparr>test_evaluator :=
                Some (demo_accumulator\<lparr>acc_results := [(0, stub_detection 0), (1, stub_detection 1)]\<rparr>)\<rparr>)"
proof -
  have r: "test_step (demo_env demo_files) testing_module ([0, 1], [[(''image_id'', Ints [0])], [(''image_id'', Ints [1])]], [0, 1]) 0 =
     Inr ([], testing_module\<lparr>test_evaluator :=
                Some (demo_accumulator\<lparr>acc_results := [(0, stub_detection 0), (1, stub_detection 1)]\<rparr>)\<rparr>)"
    by (simp add: test_step_unfold on_ok_def attr_def dict_comp_def items_def getitem_def item_def
        testing_module_def prepared_module_def demo_module_def DetectionModel_def stub_model_def
        demo_env_def acc_update_def demo_accumulator_def acc_new_def stub_detection_def)
  from test_step_submits_predictions [OF r] r show ?thesis
    by (simp add: demo_batch_def)
qed

theorem test_step_returns_detections_counterexample:
  "length (fst demo_batch) = 2
   \<and> map_sum id (\<lambda>(out, s'). length out) (test_step (demo_env demo_files) testing_module demo_batch 0) = Inr 0"
  by (simp add: test_step_unfold on_ok_def attr_def dict_comp_def items_def getitem_def item_def
        testing_module_def prepared_module_def demo_module_def DetectionModel_def stub_model_def
        demo_env_def acc_update_def demo_accumulator_def acc_new_def demo_batch_def)

text \<open>
  C7, as it holds of the code. \<open>prepare_data\<close> fails whenever any of the three named
  record sources (train, validation, test) cannot be read, and the failure is the uncaught
  exception of the first collaborator that raised: the reader's own exception for the
  first unreadable source, unless the transforms have no \<open>train\<close> pipeline (KeyError) or
  the size query on an earlier source raised before it. Nothing is checked about the
  frames: whenever every collaborator returns, \<open>prepare_data\<close> returns and stores the three
  frames as they were read, whatever their number of records.
\<close>

theorem prepare_data_propagates_reader_failure:
  "(read_csv env (train_csv (hparams s)) = Inl e \<longrightarrow>
      prepare_data env s =
        (case getitem (get_tfms env (hparams s)) ''train'' of Inl k \<Rightarrow> Inl k | Inr c \<Rightarrow> Inl e))
   \<and> (read_csv env (train_csv (hparams s)) = Inr a
      \<and> read_csv env (valid_csv (hparams s)) = Inl e \<longrightarrow>
      prepare_data env s =
        (case getitem (get_tfms env (hparams s)) ''train'' of
           Inl k \<Rightarrow> Inl k
         | Inr c \<Rightarrow> (case getsize env (train_csv (hparams s)) of Inl g \<Rightarrow> Inl g | Inr n \<Rightarrow> Inl e)))
   \<and> (read_csv env (train_csv (hparams s)) = Inr a
      \<and> read_csv env (valid_csv (hparams s)) = Inr b
      \<and> read_csv env (test_csv (hparams s)) = Inl e \<longrightarrow>
      prepare_data env s =
        (case getitem (get_tfms env (hparams s)) ''train'' of
           Inl k \<Rightarrow> Inl k
         | Inr c \<Rightarrow> (case getsize env (train_csv (hparams s)) of
                      Inl g \<Rightarrow> Inl g
                    | Inr n \<Rightarrow> (case getsize env (valid_csv (hparams s)) of
                                 Inl g \<Rightarrow> Inl g
                               | Inr m \<Rightarrow> Inl e))))
   \<and> (getitem (get_tfms env (hparams s)) ''train'' = Inr c
      \<and> read_csv env (train_csv (hparams s)) = Inr a
      \<and> getsize env (train_csv (hparams s)) = Inr n1
      \<and> read_csv env (valid_csv (hparams s)) = Inr b
      \<and> getsize env (valid_csv (hparams s)) = Inr n2
      \<and> read_csv env (test_csv (hparams s)) = Inr d
      \<and> getsize env (test_csv (hparams s)) = Inr n3 \<longrightarrow>
      (\<exists>s'. prepare_data env s = Inr s'
            \<and> trn_df s' = Some a \<and> val_df s' = Some b \<and> test_df s' = Some d
            \<and> model s' = model s \<and> hparams s' = hparams s))"
  by (simp add: prepare_data_unfold on_ok_def split: sum.splits)

theorem prepare_data_propagates_reader_failure_witness:
  "prepare_data (demo_env (drop 1 demo_files)) demo_module = Inl (Raised ''FileNotFoundError'')
   \<and> prepare_data (demo_env [hd demo_files, last demo_files]) demo_module = Inl (Raised ''FileNotFoundError'')
   \<and> prepare_data (demo_env (take 2 demo_files)) demo_module = Inl (Raised ''FileNotFoundError'')
   \<and> (\<exists>s'. prepare_data (demo_env empty_train_files) demo_module = Inr s'
          \<and> trn_df s' = Some \<lparr>columns = [''filename'', ''labels''], rows = []\<rparr>
          \<and> val_df s' = Some demo_valid_df \<and> test_df s' = Some demo_test_df)"
proof -
  note t = prepare_data_propagates_reader_failure
  have tf: "getitem demo_tfms ''train'' = Inr (Compose [''HorizontalFlip'', ''ToTensor''])"
    by (simp add: getitem_def demo_tfms_def)
  have 1: "prepare_data (demo_env (drop 1 demo_files)) demo_module = Inl (Raised ''FileNotFoundError'')"
    using t [where env = "demo_env (drop 1 demo_files)" and s = demo_module
               and e = "Raised ''FileNotFoundError''"]
    by (simp add: demo_paths demo_reads tf demo_files_def read_csv_from_def)
  have 2: "prepare_data (demo_env [hd demo_files, last demo_files]) demo_module = Inl (Raised ''FileNotFoundError'')"
    using t [where env = "demo_env [hd demo_files, last demo_files]" and s = demo_module
               and e = "Raised ''FileNotFoundError''" and a = demo_train_df]
    by (simp add: demo_paths demo_reads tf demo_files_def read_csv_from_def getsize_from_def
        file_of_def demo_train_df_def)
  have 3: "prepare_data (demo_env (take 2 demo_files)) demo_module = Inl (Raised ''FileNotFoundError'')"
    using t [where env = "demo_env (take 2 demo_files)" and s = demo_module
               and e = "Raised ''FileNotFoundError''" and a = demo_train_df and b = demo_valid_df]
    by (simp add: demo_paths demo_reads tf demo_files_def read_csv_from_def getsize_from_def
        file_of_def demo_train_df_def demo_valid_df_def)
  have pre: "getitem (get_tfms (demo_env empty_train_files) (hparams demo_module)) ''train''
                = Inr (Compose [''HorizontalFlip'', ''ToTensor''])
      \<and> read_csv (demo_env empty_train_files) (train_csv (hparams demo_module))
                = Inr \<lparr>columns = [''filename'', ''labels''], rows = []\<rparr>
      \<and> getsize (demo_env empty_train_files) (train_csv (hparams demo_module)) = Inr 16
      \<and> read_csv (demo_env empty_train_files) (valid_csv (hparams demo_module)) = Inr demo_valid_df
      \<and> getsize (demo_env empty_train_files) (valid_csv (hparams demo_module)) = Inr 24
      \<and> read_csv (demo_env empty_train_files) (test_csv (hparams demo_module)) = Inr demo_test_df
      \<and> getsize (demo_env empty_train_files) (test_csv (hparams demo_module)) = Inr 24"
    by (simp add: demo_paths demo_reads tf empty_train_files_def read_csv_from_def getsize_from_def
        file_of_def demo_valid_df_def demo_test_df_def)
  from t [where env = "demo_env empty_train_files" and s = demo_module] pre
  have 4: "\<exists>s'. prepare_data (demo_env empty_train_files) demo_module = Inr s'
          \<and> trn_df s' = Some \<lparr>columns = [''filename'', ''labels''], rows = []\<rparr>
          \<and> val_df s' = Some demo_valid_df \<and> test_df s' = Some demo_test_df"
    by blast
  from 1 2 3 4 show ?thesis by blast
qed

theorem prepare_data_accepts_empty_source_counterexample:
  "read_csv (demo_env empty_train_files) (train_csv (hparams demo_module))
     = Inr \<lparr>columns = [''filename'', ''labels''], rows = []\<rparr>
   \<and> map_sum id trn_df (prepare_data (demo_env empty_train_files) demo_module)
     = Inr (Some \<lparr>columns = [''filename'', ''labels''], rows = []\<rparr>)"
  by (simp add: prepare_data_def on_ok_def attr_def getitem_def Let_def info_def
        demo_env_def empty_train_files_def read_csv_from_def getsize_from_def file_of_def
        demo_module_def DetectionModel_def demo_hparams_def demo_tfms_def
        demo_valid_df_def demo_test_df_def)

text \<open>
  C8. A trainer built by \<open>initialize_trainer\<close> carries the logging callback exactly once
  among its callbacks. The trainer fires a start-of-stage hook after its own
  \<open>train_dataloader\<close> or \<open>test_dataloader\<close> call; at such a state each hook returns normally
  and the module it leaves differs from the one it found in the appended log lines only:
  model, configuration, optimizer, frames and evaluator are what they were.
\<close>

theorem log_callback_observes_only:
  assumes "initialize_trainer env conf kw = Inr tr"
  shows "count_list (callbacks tr) LogCallback = 1
       \<and> (\<forall>s dl s0. train_dataloader env s = Inr (dl, s0) \<longrightarrow>
            on_train_start env tr s0 =
              Inr (s0\<lparr>fancy_logger := fancy_logger s0 @
                     [LogTrainingOn (ds_len env (dl_dataset dl)), LogTrainingFrom (global_step tr)]\<rparr>))
       \<and> (\<forall>s dl s1. test_dataloader env s = Inr (dl, s1) \<longrightarrow>
            on_test_start env tr s1 =
              Inr (s1\<lparr>fancy_logger := fancy_logger s1 @ [LogInferenceOn (ds_len env (dl_dataset dl))]\<rparr>))"
proof -
  from assms have "callbacks tr = [LearningRateLogger (learning_rate_monitor_params conf), LogCallback]"
    by (auto simp: initialize_trainer_def Trainer_def on_ok_def Let_def split: sum.splits if_splits)
  then have one: "count_list (callbacks tr) LogCallback = 1" by simp
  have train: "on_train_start env tr s0 =
              Inr (s0\<lparr>fancy_logger := fancy_logger s0 @
                     [LogTrainingOn (ds_len env (dl_dataset dl)), LogTrainingFrom (global_step tr)]\<rparr>)"
    if "train_dataloader env s = Inr (dl, s0)" for s dl s0
  proof -
    from that train_dataloader_state [OF that] have "train_dataloader env s0 = Inr (dl, s0)" by simp
    then show ?thesis by (simp add: on_train_start_def on_ok_def info_def)
  qed
  have test: "on_test_start env tr s1 =
              Inr (s1\<lparr>fancy_logger := fancy_logger s1 @ [LogInferenceOn (ds_len env (dl_dataset dl))]\<rparr>)"
    if "test_dataloader env s = Inr (dl, s1)" for s dl s1
    using test_dataloader_again [OF that] by (simp add: on_test_start_def on_ok_def info_def)
  from one train test show ?thesis by blast
qed

theorem log_callback_observes_only_witness:
  "(\<exists>tr. initialize_trainer (demo_env demo_files) demo_trainer_conf [] = Inr tr
        \<and> callbacks tr = [LearningRateLogger [(''logging_interval'', PyStr ''step'')], LogCallback]
        \<and> on_train_start (demo_env demo_files) tr prepared_module =
             Inr (prepared_module\<lparr>fancy_logger := [LogTrainingOn 4, LogTrainingFrom 0]\<rparr>)
        \<and> on_test_start (demo_env demo_files) tr testing_module =
             Inr (testing_module\<lparr>fancy_logger := [LogInferenceOn 2]\<rparr>))"
proof -
  let ?tr = "\<lparr>global_step = 0,
          tr_logger = [(''TensorBoardLogger'', [(''save_dir'', PyStr ''logs'')])],
          checkpoint_callback = [(''filepath'', PyStr ''checkpoints'')],
          early_stop_callback = [(''monitor'', PyStr ''val_loss''), (''patience'', PyInt 3)],
          callbacks = [LearningRateLogger [(''logging_interval'', PyStr ''step'')], LogCallback],
          tr_flags = [(''max_epochs'', PyInt 1)]\<rparr>"
  note t = log_callback_observes_only [OF demo_initialize_trainer]
  from t demo_train_dataloader
  have "on_train_start (demo_env demo_files) ?tr prepared_module =
          Inr (prepared_module\<lparr>fancy_logger := fancy_logger prepared_module @
                 [LogTrainingOn (ds_len (demo_env demo_files)
                    (dl_dataset \<lparr>dl_dataset = DetectionDataset demo_train_df (Compose [''HorizontalFlip'', ''ToTensor'']),
           dl_batch_size = 2, dl_shuffle = True, dl_sampler = PyNone,
           dl_batch_sampler = PyNone, dl_drop_last = False,
           dl_options = [(''num_workers'', PyInt 0)]\<rparr>)), LogTrainingFrom (global_step ?tr)]\<rparr>)"
    by blast
  then have a: "on_train_start (demo_env demo_files) ?tr prepared_module =
             Inr (prepared_module\<lparr>fancy_logger := [LogTrainingOn 4, LogTrainingFrom 0]\<rparr>)"
    by (simp add: prepared_module_def demo_module_def DetectionModel_def demo_env_def
        DetectionDataset_def demo_train_df_def)
  from t demo_test_dataloader [of None]
  have "on_test_start (demo_env demo_files) ?tr testing_module =
          Inr (testing_module\<lparr>fancy_logger := fancy_logger testing_module @
                 [LogInferenceOn (ds_len (demo_env demo_files)
                    (dl_dataset \<lparr>dl_dataset = DetectionDataset demo_test_df (Compose [''ToTensor'']), dl_batch_size = 2,
           dl_shuffle = False, dl_sampler = PyNone, dl_batch_sampler = PyNone,
           dl_drop_last = False, dl_options = [(''num_workers'', PyInt 0)]\<rparr>))]\<rparr>)"
    by blast
  then have b: "on_test_start (demo_env demo_files) ?tr testing_module =
             Inr (testing_module\<lparr>fancy_logger := [LogInferenceOn 2]\<rparr>)"
    by (simp add: testing_module_def prepared_module_def demo_module_def DetectionModel_def
        demo_env_def DetectionDataset_def demo_test_df_def)
  from a b demo_initialize_trainer show ?thesis by simp
qed

text \<open>
  C9. A collated batch has as many images as targets, one of each per sample and in the
  order of the samples, so the i-th image and the i-th target come from the i-th sample.
  When the model's \<open>predict\<close> gives one output per image, the mapping the test step submits
  to the evaluator is built from the pairs of the i-th target's image identifier with the
  i-th output, and is exactly that list of pairs when the identifiers are distinct.
\<close>

theorem collate_keeps_pairs_aligned:
  assumes "collate_fn samples = (images, targets, ids)"
      and "\<forall>t \<in> set targets. distinct (map fst t)"
      and "length (predict (model s) images) = length images"
      and "length ks = length samples"
      and "\<forall>i < length samples. on_ok (getitem (targets ! i) ''image_id'') item = Inr (ks ! i)"
      and "test_evaluator s = Some ev"
  shows "length images = length samples \<and> length targets = length samples
       \<and> (\<forall>i < length samples. samples ! i = (images ! i, targets ! i, ids ! i))
       \<and> test_step env s (images, targets, ids) b =
           (case ev_update env ev (dict_comp (zip ks (predict (model s) images))) of
              Inl e \<Rightarrow> Inl e
            | Inr ev' \<Rightarrow> Inr ([], s\<lparr>test_evaluator := Some ev'\<rparr>))
       \<and> (distinct ks \<longrightarrow>
            dict_comp (zip ks (predict (model s) images)) = zip ks (predict (model s) images))"
proof -
  note c = collate_fn_nth [OF assms(1)]
  from assms(2) have copy: "map (\<lambda>t. dict_comp (items t)) targets = targets"
    by (simp add: map_idI items_def dict_comp_dict)
  from c assms(3,4,5) have "res_pairs (zip targets (predict (model s) images))
      = Inr (zip ks (predict (model s) images))"
    by (intro res_pairs_zip) simp_all
  with copy assms(6) have "test_step env s (images, targets, ids) b =
           (case ev_update env ev (dict_comp (zip ks (predict (model s) images))) of
              Inl e \<Rightarrow> Inl e
            | Inr ev' \<Rightarrow> Inr ([], s\<lparr>test_evaluator := Some ev'\<rparr>))"
    by (simp add: test_step_unfold on_ok_def attr_def)
  moreover from c assms(3,4) have "distinct ks \<longrightarrow>
            dict_comp (zip ks (predict (model s) images)) = zip ks (predict (model s) images)"
    by (simp add: dict_comp_zip_distinct)
  ultimately show ?thesis using c by simp
qed

theorem collate_keeps_pairs_aligned_witness:
  "collate_fn [(0, [(''image_id'', Ints [10])], 10), (1, [(''image_id'', Ints [11])], 11)]
     = ([0, 1 :: nat], [[(''image_id'', Ints [10])], [(''image_id'', Ints [11])]], [10, 11])
   \<and> test_step (demo_env demo_files) testing_module
        ([0, 1], [[(''image_id'', Ints [10])], [(''image_id'', Ints [11])]], [10, 11]) 0
     = Inr ([], testing_module\<lparr>test_evaluator :=
                 Some (demo_accumulator\<lparr>acc_results := [(10, stub_detection 0), (11, stub_detection 1)]\<rparr>)\<rparr>)"
proof -
  let ?samples = "[(0 :: nat, [(''image_id'', Ints [10])], 10 :: int), (1, [(''image_id'', Ints [11])], 11)]"
  let ?targets = "[[(''image_id'', Ints [10])], [(''image_id'', Ints [11])]]"
  have a1: "collate_fn ?samples = ([0, 1], ?targets, [10, 11])"
    by (simp add: collate_fn_def)
  have a2: "\<forall>t \<in> set ?targets. distinct (map fst t)"
    by simp
  have a3: "length (predict (model testing_module) [0, 1 :: nat]) = length [0, 1 :: nat]"
    by (simp add: testing_module_def prepared_module_def demo_module_def DetectionModel_def stub_model_def)
  have a4: "length [10, 11 :: int] = length ?samples"
    by simp
  have a5: "\<forall>i < length ?samples. on_ok (getitem (?targets ! i) ''image_id'') item = Inr ([10, 11] ! i)"
    by (auto simp: numeral_2_eq_2 less_Suc_eq on_ok_def getitem_def item_def)
  have a6: "test_evaluator testing_module = Some demo_accumulator"
    by (simp add: testing_module_def)
  have out: "predict (model testing_module) [0, 1 :: nat] = [stub_detection 0, stub_detection 1]"
    by (simp add: testing_module_def prepared_module_def demo_module_def DetectionModel_def
        stub_model_def stub_detection_def)
  from collate_keeps_pairs_aligned [OF a1 a2 a3 a4 a5 a6, of "demo_env demo_files" 0]
  have "test_step (demo_env demo_files) testing_module ([0, 1], ?targets, [10, 11]) 0 =
           (case ev_update (demo_env demo_files) demo_accumulator
                   (zip [10, 11] (predict (model testing_module) [0, 1])) of
              Inl e \<Rightarrow> Inl e
            | Inr ev' \<Rightarrow> Inr ([], testing_module\<lparr>test_evaluator := Some ev'\<rparr>))"
    by simp
  then have "test_step (demo_env demo_files) testing_module ([0, 1], ?targets, [10, 11]) 0
     = Inr ([], testing_module\<lparr>test_evaluator :=
                 Some (demo_accumulator\<lparr>acc_results := [(10, stub_detection 0), (11, stub_detection 1)]\<rparr>)\<rparr>)"
    unfolding out by (simp add: demo_env_def acc_update_def demo_accumulator_def acc_new_def)
  with a1 show ?thesis by simp
qed

text \<open>
  C10, as it holds of the code. A training dataloader that is constructed has shuffling
  enabled and takes its order from the random source. Provided the data-loading options of
  the configuration set neither \<open>shuffle\<close> to a true value nor a \<open>sampler\<close> nor a
  \<open>batch_sampler\<close>, the validation and test dataloaders are constructed without shuffling;
  their batches then enumerate the indices of the split in dataset order (all of them, or
  all but a short last run when the options set \<open>drop_last\<close>), the same for every random
  source.
\<close>

theorem only_training_loader_shuffles:
  assumes "\<not> truthy (kwarg (dataloader (hparams s)) ''shuffle'' (PyBool False))"
      and "kwarg (dataloader (hparams s)) ''sampler'' PyNone = PyNone"
      and "kwarg (dataloader (hparams s)) ''batch_sampler'' PyNone = PyNone"
  shows "(\<forall>dl s'. train_dataloader env s = Inr (dl, s') \<longrightarrow>
            dl_shuffle dl
          \<and> (\<forall>n rp. sample_order dl n rp = Inr (map (\<lambda>i. PyInt (int i)) (rp n))))
       \<and> (\<forall>dl s'. val_dataloader env s = Inr (dl, s') \<or> test_dataloader env s = Inr (dl, s') \<longrightarrow>
            \<not> dl_shuffle dl
          \<and> (\<forall>n. \<exists>runs. (\<forall>rp. batch_indices dl n rp = Inr runs)
                \<and> concat runs = map (\<lambda>i. PyInt (int i))
                    (take (if dl_drop_last dl then n - n mod nat (dl_batch_size dl) else n) [0..<n]))
          \<and> (\<forall>rp rp'. batches env dl rp = batches env dl rp'))"
proof -
  have train: "dl_shuffle dl \<and> (\<forall>n rp. sample_order dl n rp = Inr (map (\<lambda>i. PyInt (int i)) (rp n)))"
    if "train_dataloader env s = Inr (dl, s')" for dl s'
  proof -
    from that obtain ds bs where d: "DataLoader ds bs (Some True) (dataloader (hparams s)) = Inr dl"
      by (auto simp: train_dataloader_def on_ok_def Let_def split: sum.splits)
    from DataLoader_result(1) [OF d] have sh: "dl_shuffle dl" by simp
    with DataLoader_result(5) [OF d] have "dl_sampler dl = PyNone" by simp
    with sh show ?thesis by (simp add: sample_order_def)
  qed
  have eval: "\<not> dl_shuffle dl
          \<and> (\<forall>n. \<exists>runs. (\<forall>rp. batch_indices dl n rp = Inr runs)
                \<and> concat runs = map (\<lambda>i. PyInt (int i))
                    (take (if dl_drop_last dl then n - n mod nat (dl_batch_size dl) else n) [0..<n]))
          \<and> (\<forall>rp rp'. batches env dl rp = batches env dl rp')"
    if h: "val_dataloader env s = Inr (dl, s') \<or> test_dataloader env s = Inr (dl, s')" for dl s'
  proof -
    from h obtain ds bs where d: "DataLoader ds bs None (dataloader (hparams s)) = Inr dl"
      by (auto simp: val_dataloader_def test_dataloader_def on_ok_def Let_def split: sum.splits)
    from DataLoader_result(1) [OF d] assms(1) have ns: "\<not> dl_shuffle dl" by simp
    from DataLoader_result(2) [OF d] assms(2) have sm: "dl_sampler dl = PyNone" by simp
    from DataLoader_result(3) [OF d] assms(3) have bsm: "dl_batch_sampler dl = PyNone" by simp
    from DataLoader_result(4) [OF d bsm] have bs: "0 < dl_batch_size dl" .
    note seq = sequential_batch_indices [OF ns sm bsm bs]
    have "batches env dl rp = batches env dl rp'" for rp rp'
    proof -
      from seq [of "ds_len env (dl_dataset dl)"] obtain runs
        where "\<forall>rp. batch_indices dl (ds_len env (dl_dataset dl)) rp = Inr runs"
        by blast
      then show ?thesis by (simp add: batches_def)
    qed
    with ns seq show ?thesis by blast
  qed
  from train eval show ?thesis by blast
qed

theorem only_training_loader_shuffles_witness:
  "(\<exists>dl s'. train_dataloader (demo_env demo_files) prepared_module = Inr (dl, s') \<and> dl_shuffle dl
         \<and> sample_order dl 4 (\<lambda>n. rev [0..<n]) = Inr (map (\<lambda>i. PyInt (int i)) (rev [0..<4])))
   \<and> (\<exists>dl s'. val_dataloader (demo_env demo_files) prepared_module = Inr (dl, s')
         \<and> \<not> dl_shuffle dl
         \<and> batch_indices dl 2 (\<lambda>n. rev [0..<n]) = Inr [[PyInt 0, PyInt 1]]
         \<and> batches (demo_env demo_files) dl (\<lambda>n. rev [0..<n]) = batches (demo_env demo_files) dl (\<lambda>n. [0..<n]))"
proof -
  have h: "\<not> truthy (kwarg (dataloader (hparams prepared_module)) ''shuffle'' (PyBool False))"
      "kwarg (dataloader (hparams prepared_module)) ''sampler'' PyNone = PyNone"
      "kwarg (dataloader (hparams prepared_module)) ''batch_sampler'' PyNone = PyNone"
    by (simp_all add: truthy_def kwarg_def prepared_module_def demo_module_def DetectionModel_def
        demo_hparams_def)
  note t = only_training_loader_shuffles [OF h, of "demo_env demo_files"]
  let ?tl = "\<lparr>dl_dataset = DetectionDataset demo_train_df (Compose [''HorizontalFlip'', ''ToTensor'']),
           dl_batch_size = 2, dl_shuffle = True, dl_sampler = PyNone,
           dl_batch_sampler = PyNone, dl_drop_last = False,
           dl_options = [(''num_workers'', PyInt 0)]\<rparr>"
  let ?vl = "\<lparr>dl_dataset = DetectionDataset demo_valid_df (Compose [''ToTensor'']),
           dl_batch_size = 2, dl_shuffle = False, dl_sampler = PyNone,
           dl_batch_sampler = PyNone, dl_drop_last = False,
           dl_options = [(''num_workers'', PyInt 0)]\<rparr>"
  from t demo_train_dataloader have tr: "dl_shuffle ?tl
      \<and> (\<forall>n rp. sample_order ?tl n rp = Inr (map (\<lambda>i. PyInt (int i)) (rp n)))"
    by blast
  from t demo_val_dataloader have v: "\<not> dl_shuffle ?vl
      \<and> (\<forall>rp rp'. batches (demo_env demo_files) ?vl rp = batches (demo_env demo_files) ?vl rp')"
    by blast
  have "batch_indices ?vl 2 (\<lambda>n. rev [0..<n]) = Inr [[PyInt 0, PyInt 1]]"
    by (simp add: batch_indices_def sample_order_def on_ok_def chunks.simps upt_0_2)
  with tr v show ?thesis
    using demo_train_dataloader demo_val_dataloader by blast
qed

theorem configured_shuffle_counterexample:
  "train_dataloader (demo_env demo_files) (prepared_module\<lparr>hparams := shuffle_hparams\<rparr>) = Inl TypeError
   \<and> map_sum id (\<lambda>(dl, s'). (dl_shuffle dl, batch_indices dl 2 (\<lambda>n. rev [0..<n])))
       (val_dataloader (demo_env demo_files) (prepared_module\<lparr>hparams := shuffle_hparams\<rparr>))
     = Inr (True, Inr [[PyInt 1, PyInt 0]])"
  by (simp add: train_dataloader_def val_dataloader_def on_ok_def attr_def getitem_def Let_def
      DataLoader_def kwarg_def truthy_def
      prepared_module_def demo_module_def DetectionModel_def demo_hparams_def shuffle_hparams_def
      demo_env_def demo_tfms_def batch_indices_def sample_order_def chunks.simps upt_0_2)

end
